theory Spec2Isabelle
  imports Main
begin

section \<open>The GNSS instance registry of ubxlib (src/gnss/src/u_gnss.c)\<close>

text \<open>
  A shallow embedding of the "general" GNSS API: the registry of GNSS instances
  (\<open>gpUGnssPrivateInstanceList\<close>, guarded by \<open>gUGnssPrivateMutex\<close>), \<open>uGnssInit\<close>,
  \<open>uGnssDeinit\<close>, \<open>uGnssAdd\<close>, \<open>uGnssRemove\<close> and the per-instance setters and getters.

  \<^item> \<open>int32_t\<close> values are \<open>int\<close>: the code does no arithmetic on them, only
    comparisons and the two bitwise operations on the pin number, which on \<open>int\<close>
    agree with two's complement. The narrowing store into the \<open>uint16_t\<close> field
    \<open>i2cAddress\<close> and the cast \<open>(size_t) moduleType\<close> are written out.
  \<^item> Pointers and handles are natural numbers, \<open>NULL\<close> being 0.
  \<^item> The singly linked list rooted at \<open>gpUGnssPrivateInstanceList\<close> is the list of its
    nodes in link order; \<open>pNext\<close> is the rest of the list. Every node carries its own
    address (\<open>self\<close>, what \<open>malloc\<close> returned for it), so that a pointer to an instance
    is that address.
  \<^item> Calls into the porting layer and the C library are recorded, in program order, in
    the \<open>effects\<close> of the state; what such a call returns is a parameter of the
    function that makes it.
\<close>

subsection \<open>Types\<close>

type_synonym int32_t = int
type_synonym ptr = nat

abbreviation (input) NULL :: ptr where
  "NULL \<equiv> 0"

text \<open>
  \<open>uGnssTransportType_t\<close>, in the order \<open>gpTransportTypeText\<close> of u_gnss.c lists its
  enumerators. A C enum holds any \<open>int\<close>, and \<open>uGnssAdd\<close> checks the range, so the type
  is \<open>int\<close>.
\<close>

type_synonym uGnssTransportType_t = int

abbreviation (input) U_GNSS_TRANSPORT_NONE :: uGnssTransportType_t where
  "U_GNSS_TRANSPORT_NONE \<equiv> 0"
abbreviation (input) U_GNSS_TRANSPORT_UBX_UART :: uGnssTransportType_t where
  "U_GNSS_TRANSPORT_UBX_UART \<equiv> 1"
abbreviation (input) U_GNSS_TRANSPORT_UBX_AT :: uGnssTransportType_t where
  "U_GNSS_TRANSPORT_UBX_AT \<equiv> 2"
abbreviation (input) U_GNSS_TRANSPORT_NMEA_UART :: uGnssTransportType_t where
  "U_GNSS_TRANSPORT_NMEA_UART \<equiv> 3"
abbreviation (input) U_GNSS_TRANSPORT_UBX_I2C :: uGnssTransportType_t where
  "U_GNSS_TRANSPORT_UBX_I2C \<equiv> 4"
abbreviation (input) U_GNSS_TRANSPORT_NMEA_I2C :: uGnssTransportType_t where
  "U_GNSS_TRANSPORT_NMEA_I2C \<equiv> 5"
abbreviation (input) U_GNSS_TRANSPORT_MAX_NUM :: uGnssTransportType_t where
  "U_GNSS_TRANSPORT_MAX_NUM \<equiv> 6"

text \<open>
  \<open>uGnssTransportHandle_t\<close> is a C union of \<open>pAt\<close> (a pointer), \<open>uart\<close> and \<open>i2c\<close>
  (both \<open>int32_t\<close>): the three members are views of one storage. The model is that
  storage, one 32-bit value (a pointer has the width of \<open>int32_t\<close> on the 32-bit
  targets of the library), and reading a member reads it; \<open>pAt\<close> gives the pointer as
  the number its bits are.
\<close>

type_synonym uGnssTransportHandle_t = int

definition uart :: "uGnssTransportHandle_t \<Rightarrow> int32_t" where
  "uart h = h"

definition pAt :: "uGnssTransportHandle_t \<Rightarrow> int" where
  "pAt h = h"

definition i2c :: "uGnssTransportHandle_t \<Rightarrow> int32_t" where
  "i2c h = h"

text \<open>The part of \<open>uPortGpioConfig_t\<close> that \<open>uGnssAdd\<close> fills in, with the enumerators it names.\<close>

datatype uPortGpioDriveMode_t =
  U_PORT_GPIO_DRIVE_MODE_NORMAL | U_PORT_GPIO_DRIVE_MODE_OPEN_DRAIN

datatype uPortGpioPullMode_t = U_PORT_GPIO_PULL_MODE_NONE

datatype uPortGpioDirection_t = U_PORT_GPIO_DIRECTION_OUTPUT

record uPortGpioConfig_t =
  pin :: int32_t
  pullMode :: uPortGpioPullMode_t
  driveMode :: uPortGpioDriveMode_t
  direction :: uPortGpioDirection_t

text \<open>
  The compile-time constants u_gnss.c takes from headers that are not part of the
  sources at hand; they are parameters of the model. \<open>U_ERROR_COMMON_SUCCESS\<close> is 0:
  the code itself tests \<open>errorCodeOrHandle == 0\<close> for success.
  \<open>U_GNSS_PIN_ENABLE_POWER_DRIVE_MODE\<close> is \<open>None\<close> when the macro is not defined
  (the \<open>#ifdef\<close> of \<open>uGnssAdd\<close>).
\<close>

abbreviation (input) U_ERROR_COMMON_SUCCESS :: int32_t where
  "U_ERROR_COMMON_SUCCESS \<equiv> 0"

record config =
  U_ERROR_COMMON_NOT_INITIALISED :: int32_t
  U_ERROR_COMMON_INVALID_PARAMETER :: int32_t
  U_ERROR_COMMON_NO_MEMORY :: int32_t
  U_GNSS_PIN_INVERTED :: int32_t
  U_GNSS_PIN_ENABLE_POWER_ON_STATE :: int32_t
  U_GNSS_PIN_ENABLE_POWER_DRIVE_MODE :: "uPortGpioDriveMode_t option"
  U_GNSS_I2C_ADDRESS :: int32_t
  U_GNSS_DEFAULT_TIMEOUT_MS :: int32_t
  gUGnssPrivateModuleListSize :: nat

text \<open>
  \<open>uGnssPrivateInstance_t\<close> (u_gnss_private.h). \<open>pModule\<close> is \<open>NULL\<close>
  (\<open>None\<close>) or points into \<open>gUGnssPrivateModuleList\<close>, and is kept as the index it
  points at; \<open>i2cAddress\<close> is
  \<open>uint16_t\<close> and \<open>posTaskFlags\<close> is \<open>uint8_t\<close>.
\<close>

record uGnssPrivateInstance_t =
  self :: ptr
  gnssHandle :: ptr
  pModule :: "nat option"
  transportType :: uGnssTransportType_t
  transportHandle :: uGnssTransportHandle_t
  i2cAddress :: int
  timeoutMs :: int32_t
  printUbxMessages :: bool
  pinGnssEnablePower :: int32_t
  pinGnssEnablePowerOnState :: int32_t
  atModulePinPwr :: int32_t
  atModulePinDataReady :: int32_t
  portNumber :: int32_t
  transportMutex :: ptr
  posTask :: ptr
  posMutex :: ptr
  posTaskFlags :: nat

text \<open>
  What the code does to the world outside the registry, one constructor per call.
  A call that returns something records it. \<open>Unlink\<close> is the write that takes a node
  out of the list (\<open>pPrev->pNext = pCurrent->pNext\<close> or the write of the list root),
  recorded so that its place among the calls can be stated.
\<close>

datatype effect =
    DeviceCreateInstance ptr
  | DeviceDestroyInstance ptr
  | MutexCreate int32_t ptr
  | MutexDelete ptr
  | MutexLock ptr
  | MutexUnlock ptr
  | Malloc ptr
  | Free ptr
  | GpioSet int32_t int32_t
  | GpioConfig uPortGpioConfig_t
  | CleanUpPosTask ptr
  | Unlink ptr

record state =
  gUGnssPrivateMutex :: ptr
  gpUGnssPrivateInstanceList :: "uGnssPrivateInstance_t list"
  effects :: "effect list"

definition emit :: "effect list \<Rightarrow> state \<Rightarrow> state" where
  "emit es s = s\<lparr>effects := effects s @ es\<rparr>"

subsection \<open>Static functions\<close>

text \<open>
  The \<open>switch\<close> of \<open>pGetGnssInstanceTransportHandle\<close>, entered when the instance has
  the transport type asked for: which member of the union is compared.
\<close>

definition transportHandleMatch ::
  "uGnssTransportType_t \<Rightarrow> uGnssTransportHandle_t \<Rightarrow> uGnssTransportHandle_t \<Rightarrow> bool" where
  "transportHandleMatch transportType' instanceHandle transportHandle' =
     (if transportType' = U_GNSS_TRANSPORT_UBX_UART \<or> transportType' = U_GNSS_TRANSPORT_NMEA_UART
      then uart instanceHandle = uart transportHandle'
      else if transportType' = U_GNSS_TRANSPORT_UBX_AT
      then pAt instanceHandle = pAt transportHandle'
      else if transportType' = U_GNSS_TRANSPORT_UBX_I2C \<or> transportType' = U_GNSS_TRANSPORT_NMEA_I2C
      then i2c instanceHandle = i2c transportHandle'
      else False)"

text \<open>
  \<open>pGetGnssInstanceTransportHandle\<close>: \<open>None\<close> is the \<open>NULL\<close> it returns at the end of
  the list. (An argument whose name is also a field of the instance is written with a
  prime.)
\<close>

fun pGetGnssInstanceTransportHandle ::
  "uGnssTransportType_t \<Rightarrow> uGnssTransportHandle_t \<Rightarrow> uGnssPrivateInstance_t list
     \<Rightarrow> uGnssPrivateInstance_t option" where
  "pGetGnssInstanceTransportHandle transportType' transportHandle' [] = None"
| "pGetGnssInstanceTransportHandle transportType' transportHandle' (pInstance # pNext) =
     (if transportType pInstance = transportType'
         \<and> transportHandleMatch transportType' (transportHandle pInstance) transportHandle'
      then Some pInstance
      else pGetGnssInstanceTransportHandle transportType' transportHandle' pNext)"

text \<open>\<open>addGnssInstance\<close>: the new node becomes the head, the old list its \<open>pNext\<close>.\<close>

definition addGnssInstance :: "uGnssPrivateInstance_t \<Rightarrow> state \<Rightarrow> state" where
  "addGnssInstance pInstance s =
     s\<lparr>gpUGnssPrivateInstanceList := pInstance # gpUGnssPrivateInstanceList s\<rparr>"

text \<open>
  The loop of \<open>deleteGnssInstance\<close> from \<open>pCurrent\<close> on: the list that is left and the
  effects. The node whose address is \<open>pInstance\<close> is torn down and taken out, and the
  loop ends there (\<open>pCurrent = NULL\<close>); a node that is not it is stepped over.
\<close>

fun deleteGnssInstance_loop ::
  "ptr \<Rightarrow> uGnssPrivateInstance_t list \<Rightarrow> uGnssPrivateInstance_t list \<times> effect list" where
  "deleteGnssInstance_loop pInstance [] = ([], [])"
| "deleteGnssInstance_loop pInstance (pCurrent # pNext) =
     (if pInstance = self pCurrent
      then (pNext,
            [CleanUpPosTask pInstance,
             MutexDelete (transportMutex pCurrent),
             DeviceDestroyInstance (gnssHandle pCurrent),
             Unlink pInstance,
             Free pInstance])
      else (let (rest, es) = deleteGnssInstance_loop pInstance pNext
            in (pCurrent # rest, es)))"

definition deleteGnssInstance :: "ptr \<Rightarrow> state \<Rightarrow> state" where
  "deleteGnssInstance pInstance s =
     (let (l, es) = deleteGnssInstance_loop pInstance (gpUGnssPrivateInstanceList s)
      in emit es (s\<lparr>gpUGnssPrivateInstanceList := l\<rparr>))"

text \<open>
  A write through a pointer to an instance, \<open>pInstance->field = v\<close>: the node at that
  address is changed where it stands in the list.
\<close>

fun storeInstance ::
  "ptr \<Rightarrow> (uGnssPrivateInstance_t \<Rightarrow> uGnssPrivateInstance_t) \<Rightarrow> uGnssPrivateInstance_t list
     \<Rightarrow> uGnssPrivateInstance_t list" where
  "storeInstance pInstance f [] = []"
| "storeInstance pInstance f (pCurrent # pNext) =
     (if self pCurrent = pInstance then f pCurrent # pNext
      else pCurrent # storeInstance pInstance f pNext)"

definition store ::
  "ptr \<Rightarrow> (uGnssPrivateInstance_t \<Rightarrow> uGnssPrivateInstance_t) \<Rightarrow> state \<Rightarrow> state" where
  "store pInstance f s =
     s\<lparr>gpUGnssPrivateInstanceList := storeInstance pInstance f (gpUGnssPrivateInstanceList s)\<rparr>"

subsection \<open>The lookup by handle\<close>

text \<open>
  Modelled from the spec: \<open>pUGnssPrivateGetInstance\<close> is declared in u_gnss_private.h
  ("find a GNSS instance in the list by instance handle") and defined in a file that
  is not among the sources. The spec (4.1, \<open>findByHandle\<close>) makes it a linear scan of
  the registry; the scan here returns the first node whose \<open>gnssHandle\<close> is the handle
  given, \<open>None\<close> being \<open>NULL\<close>. The header adds that the handle of another device on
  which a GNSS network was brought up is accepted too; the spec has no such
  translation, and the scan has none.
\<close>

fun pUGnssPrivateGetInstance ::
  "ptr \<Rightarrow> uGnssPrivateInstance_t list \<Rightarrow> uGnssPrivateInstance_t option" where
  "pUGnssPrivateGetInstance handle [] = None"
| "pUGnssPrivateGetInstance handle (pInstance # pNext) =
     (if gnssHandle pInstance = handle then Some pInstance
      else pUGnssPrivateGetInstance handle pNext)"

subsection \<open>Initialisation and shut-down\<close>

text \<open>
  \<open>uGnssInit\<close>. Its argument is what \<open>uPortMutexCreate\<close> does when called: the error code
  it returns and the handle it leaves in \<open>gUGnssPrivateMutex\<close>.
\<close>

definition uGnssInit :: "int32_t \<times> ptr \<Rightarrow> state \<Rightarrow> int32_t \<times> state" where
  "uGnssInit uPortMutexCreate' s =
     (if gUGnssPrivateMutex s = NULL
      then (let (errorCode, mutex) = uPortMutexCreate'
            in (errorCode, (emit [MutexCreate errorCode mutex] s)\<lparr>gUGnssPrivateMutex := mutex\<rparr>))
      else (U_ERROR_COMMON_SUCCESS, s))"

text \<open>
  The loop of \<open>uGnssDeinit\<close>: while the list is not empty, \<open>deleteGnssInstance\<close> is
  called on its head.
\<close>

function uGnssDeinit_loop :: "state \<Rightarrow> state" where
  "uGnssDeinit_loop s =
     (case gpUGnssPrivateInstanceList s of
        [] \<Rightarrow> s
      | pHead # pNext \<Rightarrow> uGnssDeinit_loop (deleteGnssInstance (self pHead) s))"
  by pat_completeness auto
termination
  by (relation "measure (\<lambda>s. length (gpUGnssPrivateInstanceList s))")
     (auto simp: deleteGnssInstance_def emit_def)

declare uGnssDeinit_loop.simps [simp del]

definition uGnssDeinit :: "state \<Rightarrow> state" where
  "uGnssDeinit s =
     (if gUGnssPrivateMutex s \<noteq> NULL
      then (let s1 = emit [MutexLock (gUGnssPrivateMutex s)] s;
                s2 = uGnssDeinit_loop s1;
                s3 = emit [MutexUnlock (gUGnssPrivateMutex s2),
                           MutexDelete (gUGnssPrivateMutex s2)] s2
            in s3\<lparr>gUGnssPrivateMutex := NULL\<rparr>)
      else s)"

subsection \<open>Adding an instance\<close>

text \<open>
  What the calls \<open>uGnssAdd\<close> makes return: \<open>pUDeviceCreateInstance\<close> and \<open>malloc\<close> a
  pointer (\<open>NULL\<close> on failure), \<open>uPortMutexCreate\<close> an error code and the handle it
  leaves in \<open>pInstance->transportMutex\<close>, \<open>uPortGpioSet\<close> and \<open>uPortGpioConfig\<close> an error
  code.
\<close>

record uGnssAdd_env =
  pUDeviceCreateInstance :: ptr
  malloc :: ptr
  uPortMutexCreate :: "int32_t \<times> ptr"
  uPortGpioSet :: int32_t
  uPortGpioConfig :: int32_t

text \<open>C's \<open>!\<close> on an \<open>int\<close>, and the cast \<open>(size_t) moduleType\<close> to a 32-bit \<open>size_t\<close>.\<close>

definition logicalNot :: "int32_t \<Rightarrow> int32_t" where
  "logicalNot x = (if x = 0 then 1 else 0)"

definition size_t_of :: "int32_t \<Rightarrow> nat" where
  "size_t_of x = nat (x mod 2 ^ 32)"

text \<open>The three initialisers at the top of \<open>uGnssAdd\<close>, computed from the pin argument.\<close>

definition enablePowerOnState :: "config \<Rightarrow> int32_t \<Rightarrow> int32_t" where
  "enablePowerOnState cfg pinGnssEnablePower' =
     (if and pinGnssEnablePower' (U_GNSS_PIN_INVERTED cfg) \<noteq> 0
      then logicalNot (U_GNSS_PIN_ENABLE_POWER_ON_STATE cfg)
      else U_GNSS_PIN_ENABLE_POWER_ON_STATE cfg)"

definition enablePowerPin :: "config \<Rightarrow> int32_t \<Rightarrow> int32_t" where
  "enablePowerPin cfg pinGnssEnablePower' =
     and pinGnssEnablePower' (not (U_GNSS_PIN_INVERTED cfg))"

definition enablePowerDriveMode :: "config \<Rightarrow> int32_t \<Rightarrow> uPortGpioDriveMode_t" where
  "enablePowerDriveMode cfg pinGnssEnablePowerOnState' =
     (case U_GNSS_PIN_ENABLE_POWER_DRIVE_MODE cfg of
        Some userOverride \<Rightarrow> userOverride
      | None \<Rightarrow> (if pinGnssEnablePowerOnState' = 1 then U_PORT_GPIO_DRIVE_MODE_NORMAL
                 else U_PORT_GPIO_DRIVE_MODE_OPEN_DRAIN))"

text \<open>The instance after \<open>memset(pInstance, 0, sizeof( *pInstance))\<close>.\<close>

definition zeroed :: "ptr \<Rightarrow> uGnssPrivateInstance_t" where
  "zeroed pInstance =
     \<lparr>self = pInstance, gnssHandle = NULL, pModule = None, transportType = 0,
      transportHandle = 0, i2cAddress = 0, timeoutMs = 0, printUbxMessages = False,
      pinGnssEnablePower = 0, pinGnssEnablePowerOnState = 0, atModulePinPwr = 0,
      atModulePinDataReady = 0, portNumber = 0, transportMutex = NULL, posTask = NULL,
      posMutex = NULL, posTaskFlags = 0\<rparr>"

text \<open>
  The assignments \<open>uGnssAdd\<close> makes once the transport mutex exists, from
  \<open>pInstance->transportType = transportType\<close> to \<open>pInstance->pNext = NULL\<close>.
\<close>

definition fillInstance ::
  "config \<Rightarrow> int32_t \<Rightarrow> uGnssTransportType_t \<Rightarrow> uGnssTransportHandle_t \<Rightarrow> int32_t
     \<Rightarrow> uGnssPrivateInstance_t \<Rightarrow> uGnssPrivateInstance_t" where
  "fillInstance cfg moduleType transportType' transportHandle' pinGnssEnablePower' pInstance =
     pInstance
       \<lparr>transportType := transportType',
        pModule := Some (size_t_of moduleType),
        transportHandle := transportHandle',
        i2cAddress := U_GNSS_I2C_ADDRESS cfg mod 2 ^ 16,
        timeoutMs := U_GNSS_DEFAULT_TIMEOUT_MS cfg,
        printUbxMessages := False,
        pinGnssEnablePower := pinGnssEnablePower',
        atModulePinPwr := - 1,
        atModulePinDataReady := - 1,
        portNumber := (if transportType' = U_GNSS_TRANSPORT_UBX_UART
                          \<or> transportType' = U_GNSS_TRANSPORT_NMEA_UART then 1 else 0),
        posTask := NULL,
        posMutex := NULL,
        posTaskFlags := 0\<rparr>"

text \<open>
  "Sort ENABLE_POWER pin if there is one": the value of \<open>platformError\<close> after the
  block, and the GPIO calls made.
\<close>

definition sortEnablePowerPin ::
  "uGnssAdd_env \<Rightarrow> int32_t \<Rightarrow> int32_t \<Rightarrow> uPortGpioDriveMode_t \<Rightarrow> bool
     \<Rightarrow> int32_t \<times> effect list" where
  "sortEnablePowerPin env pinGnssEnablePower' pinGnssEnablePowerOnState'
       pinGnssEnablePowerDriveMode leavePowerAlone =
     (if pinGnssEnablePower' \<ge> 0
      then (let (platformError, es) =
                  (if \<not> leavePowerAlone
                   then (uPortGpioSet env,
                         [GpioSet pinGnssEnablePower' (logicalNot pinGnssEnablePowerOnState')])
                   else (0, []))
            in if platformError = 0
               then (uPortGpioConfig env,
                     es @ [GpioConfig \<lparr>pin = pinGnssEnablePower',
                                       pullMode = U_PORT_GPIO_PULL_MODE_NONE,
                                       driveMode = pinGnssEnablePowerDriveMode,
                                       direction = U_PORT_GPIO_DIRECTION_OUTPUT\<rparr>])
               else (platformError, es))
      else (0, []))"

text \<open>
  The body of \<open>uGnssAdd\<close> once the parameters have been accepted: from \<open>malloc\<close> to
  the instance being added to the list or freed again. The result is
  \<open>errorCodeOrHandle\<close>, what was written to \<open>*pGnssHandle\<close> (\<open>None\<close>: nothing) and the
  state.
\<close>

definition uGnssAdd_allocate ::
  "config \<Rightarrow> uGnssAdd_env \<Rightarrow> int32_t \<Rightarrow> uGnssTransportType_t \<Rightarrow> uGnssTransportHandle_t
     \<Rightarrow> int32_t \<Rightarrow> int32_t \<Rightarrow> uPortGpioDriveMode_t \<Rightarrow> bool \<Rightarrow> ptr \<Rightarrow> state
     \<Rightarrow> int32_t \<times> ptr option \<times> state" where
  "uGnssAdd_allocate cfg env moduleType transportType' transportHandle' pinGnssEnablePower'
       pinGnssEnablePowerOnState' pinGnssEnablePowerDriveMode leavePowerAlone pDevInstance s =
     (let pInstance = malloc env;
          s1 = emit [Malloc pInstance] s
      in if pInstance \<noteq> NULL
         then (let (errorCodeOrHandle, mutex) = uPortMutexCreate env;
                   created = (zeroed pInstance)
                               \<lparr>pinGnssEnablePowerOnState := pinGnssEnablePowerOnState',
                                gnssHandle := pDevInstance,
                                transportMutex := mutex\<rparr>;
                   s2 = emit [MutexCreate errorCodeOrHandle mutex] s1;
                   (filled, platformError, es) =
                      (if errorCodeOrHandle = 0
                       then (fillInstance cfg moduleType transportType' transportHandle'
                               pinGnssEnablePower' created,
                             sortEnablePowerPin env pinGnssEnablePower'
                               pinGnssEnablePowerOnState' pinGnssEnablePowerDriveMode
                               leavePowerAlone)
                       else (created, 0, []));
                   s3 = emit es s2
               in if errorCodeOrHandle = 0 \<and> platformError = 0
                  then (U_ERROR_COMMON_SUCCESS, Some (gnssHandle filled),
                        addGnssInstance filled s3)
                  else (errorCodeOrHandle, None,
                        emit ((if transportMutex filled \<noteq> NULL
                               then [MutexDelete (transportMutex filled)] else [])
                              @ [Free pInstance]) s3))
         else (U_ERROR_COMMON_NO_MEMORY cfg, None, s1))"

text \<open>"Check parameters": the condition under which \<open>uGnssAdd\<close> goes on to allocate.\<close>

definition checkParameters ::
  "config \<Rightarrow> int32_t \<Rightarrow> uGnssTransportType_t \<Rightarrow> uGnssTransportHandle_t
     \<Rightarrow> uGnssPrivateInstance_t list \<Rightarrow> bool" where
  "checkParameters cfg moduleType transportType' transportHandle' instanceList =
     (size_t_of moduleType < gUGnssPrivateModuleListSize cfg
      \<and> (transportType' > U_GNSS_TRANSPORT_NONE \<and> transportType' < U_GNSS_TRANSPORT_MAX_NUM)
      \<and> (transportType' = U_GNSS_TRANSPORT_UBX_I2C
           \<or> transportType' = U_GNSS_TRANSPORT_NMEA_I2C
           \<or> pGetGnssInstanceTransportHandle transportType' transportHandle' instanceList = None))"

text \<open>
  \<open>uGnssAdd\<close>. The diagnostic prints are left out. The result is the value returned,
  what was written to \<open>*pGnssHandle\<close> and the state.
\<close>

definition uGnssAdd ::
  "config \<Rightarrow> uGnssAdd_env \<Rightarrow> int32_t \<Rightarrow> uGnssTransportType_t \<Rightarrow> uGnssTransportHandle_t
     \<Rightarrow> int32_t \<Rightarrow> bool \<Rightarrow> state \<Rightarrow> int32_t \<times> ptr option \<times> state" where
  "uGnssAdd cfg env moduleType transportType' transportHandle' pinGnssEnablePower'
       leavePowerAlone s =
     (let pinGnssEnablePowerOnState' = enablePowerOnState cfg pinGnssEnablePower';
          pinMasked = enablePowerPin cfg pinGnssEnablePower';
          pinGnssEnablePowerDriveMode = enablePowerDriveMode cfg pinGnssEnablePowerOnState'
      in if gUGnssPrivateMutex s \<noteq> NULL
         then (let pDevInstance = pUDeviceCreateInstance env;
                   s1 = emit [DeviceCreateInstance pDevInstance] s
               in if pDevInstance \<noteq> NULL
                  then (let s2 = emit [MutexLock (gUGnssPrivateMutex s1)] s1;
                            (errorCodeOrHandle, written, s3) =
                              (if checkParameters cfg moduleType transportType'
                                    transportHandle' (gpUGnssPrivateInstanceList s2)
                               then uGnssAdd_allocate cfg env moduleType transportType'
                                      transportHandle' pinMasked pinGnssEnablePowerOnState'
                                      pinGnssEnablePowerDriveMode leavePowerAlone
                                      pDevInstance s2
                               else (U_ERROR_COMMON_INVALID_PARAMETER cfg, None, s2));
                            s4 = (if errorCodeOrHandle \<noteq> U_ERROR_COMMON_SUCCESS
                                  then emit [DeviceDestroyInstance pDevInstance] s3
                                  else s3)
                        in (errorCodeOrHandle, written,
                            emit [MutexUnlock (gUGnssPrivateMutex s4)] s4))
                  else (U_ERROR_COMMON_NO_MEMORY cfg, None, s1))
         else (U_ERROR_COMMON_NOT_INITIALISED cfg, None, s))"

subsection \<open>Removing an instance\<close>

definition uGnssRemove :: "ptr \<Rightarrow> state \<Rightarrow> state" where
  "uGnssRemove gnssHandle' s =
     (if gUGnssPrivateMutex s \<noteq> NULL
      then (let s1 = emit [MutexLock (gUGnssPrivateMutex s)] s;
                s2 = (case pUGnssPrivateGetInstance gnssHandle' (gpUGnssPrivateInstanceList s1) of
                        Some pInstance \<Rightarrow> deleteGnssInstance (self pInstance) s1
                      | None \<Rightarrow> s1)
            in emit [MutexUnlock (gUGnssPrivateMutex s2)] s2)
      else s)"

subsection \<open>Setters and getters\<close>

text \<open>
  Each takes the registry mutex, looks the instance up, reads or writes one field and
  releases the mutex. A function of the source that returns a value returns it with
  the state here; a \<open>void\<close> one returns the state.
\<close>

definition uGnssSetI2cAddress :: "config \<Rightarrow> ptr \<Rightarrow> int32_t \<Rightarrow> state \<Rightarrow> int32_t \<times> state" where
  "uGnssSetI2cAddress cfg gnssHandle' i2cAddress' s =
     (if gUGnssPrivateMutex s \<noteq> NULL
      then (let s1 = emit [MutexLock (gUGnssPrivateMutex s)] s;
                (errorCode, s2) =
                  (case pUGnssPrivateGetInstance gnssHandle' (gpUGnssPrivateInstanceList s1) of
                     Some pInstance \<Rightarrow>
                       if i2cAddress' > 0
                       then (U_ERROR_COMMON_SUCCESS,
                             store (self pInstance)
                               (\<lambda>i. i\<lparr>i2cAddress := i2cAddress' mod 2 ^ 16\<rparr>) s1)
                       else (U_ERROR_COMMON_INVALID_PARAMETER cfg, s1)
                   | None \<Rightarrow> (U_ERROR_COMMON_INVALID_PARAMETER cfg, s1))
            in (errorCode, emit [MutexUnlock (gUGnssPrivateMutex s2)] s2))
      else (U_ERROR_COMMON_NOT_INITIALISED cfg, s))"

definition uGnssGetI2cAddress :: "config \<Rightarrow> ptr \<Rightarrow> state \<Rightarrow> int32_t \<times> state" where
  "uGnssGetI2cAddress cfg gnssHandle' s =
     (if gUGnssPrivateMutex s \<noteq> NULL
      then (let s1 = emit [MutexLock (gUGnssPrivateMutex s)] s;
                errorCodeOrI2cAddress =
                  (case pUGnssPrivateGetInstance gnssHandle' (gpUGnssPrivateInstanceList s1) of
                     Some pInstance \<Rightarrow> i2cAddress pInstance
                   | None \<Rightarrow> U_ERROR_COMMON_INVALID_PARAMETER cfg)
            in (errorCodeOrI2cAddress, emit [MutexUnlock (gUGnssPrivateMutex s1)] s1))
      else (U_ERROR_COMMON_NOT_INITIALISED cfg, s))"

text \<open>
  \<open>uGnssGetTransportHandle\<close>: the two flags say whether \<open>pTransportType\<close> and
  \<open>pTransportHandle\<close> are not \<open>NULL\<close>; the result carries what was written through
  each (\<open>None\<close>: nothing).
\<close>

definition uGnssGetTransportHandle ::
  "config \<Rightarrow> ptr \<Rightarrow> bool \<Rightarrow> bool \<Rightarrow> state
     \<Rightarrow> int32_t \<times> uGnssTransportType_t option \<times> uGnssTransportHandle_t option \<times> state" where
  "uGnssGetTransportHandle cfg gnssHandle' pTransportType pTransportHandle s =
     (if gUGnssPrivateMutex s \<noteq> NULL
      then (let s1 = emit [MutexLock (gUGnssPrivateMutex s)] s;
                (errorCode, writtenType, writtenHandle) =
                  (case pUGnssPrivateGetInstance gnssHandle' (gpUGnssPrivateInstanceList s1) of
                     Some pInstance \<Rightarrow>
                       (U_ERROR_COMMON_SUCCESS,
                        (if pTransportType then Some (transportType pInstance) else None),
                        (if pTransportHandle then Some (transportHandle pInstance) else None))
                   | None \<Rightarrow> (U_ERROR_COMMON_INVALID_PARAMETER cfg, None, None))
            in (errorCode, writtenType, writtenHandle,
                emit [MutexUnlock (gUGnssPrivateMutex s1)] s1))
      else (U_ERROR_COMMON_NOT_INITIALISED cfg, None, None, s))"

definition uGnssSetAtPinPwr :: "ptr \<Rightarrow> int32_t \<Rightarrow> state \<Rightarrow> state" where
  "uGnssSetAtPinPwr gnssHandle' pin' s =
     (if gUGnssPrivateMutex s \<noteq> NULL
      then (let s1 = emit [MutexLock (gUGnssPrivateMutex s)] s;
                s2 = (case pUGnssPrivateGetInstance gnssHandle' (gpUGnssPrivateInstanceList s1) of
                        Some pInstance \<Rightarrow>
                          store (self pInstance) (\<lambda>i. i\<lparr>atModulePinPwr := pin'\<rparr>) s1
                      | None \<Rightarrow> s1)
            in emit [MutexUnlock (gUGnssPrivateMutex s2)] s2)
      else s)"

definition uGnssSetAtPinDataReady :: "ptr \<Rightarrow> int32_t \<Rightarrow> state \<Rightarrow> state" where
  "uGnssSetAtPinDataReady gnssHandle' pin' s =
     (if gUGnssPrivateMutex s \<noteq> NULL
      then (let s1 = emit [MutexLock (gUGnssPrivateMutex s)] s;
                s2 = (case pUGnssPrivateGetInstance gnssHandle' (gpUGnssPrivateInstanceList s1) of
                        Some pInstance \<Rightarrow>
                          store (self pInstance) (\<lambda>i. i\<lparr>atModulePinDataReady := pin'\<rparr>) s1
                      | None \<Rightarrow> s1)
            in emit [MutexUnlock (gUGnssPrivateMutex s2)] s2)
      else s)"

definition uGnssGetTimeout :: "config \<Rightarrow> ptr \<Rightarrow> state \<Rightarrow> int32_t \<times> state" where
  "uGnssGetTimeout cfg gnssHandle' s =
     (if gUGnssPrivateMutex s \<noteq> NULL
      then (let s1 = emit [MutexLock (gUGnssPrivateMutex s)] s;
                errorCodeOrTimeout =
                  (case pUGnssPrivateGetInstance gnssHandle' (gpUGnssPrivateInstanceList s1) of
                     Some pInstance \<Rightarrow> timeoutMs pInstance
                   | None \<Rightarrow> U_ERROR_COMMON_INVALID_PARAMETER cfg)
            in (errorCodeOrTimeout, emit [MutexUnlock (gUGnssPrivateMutex s1)] s1))
      else (U_ERROR_COMMON_NOT_INITIALISED cfg, s))"

definition uGnssSetTimeout :: "ptr \<Rightarrow> int32_t \<Rightarrow> state \<Rightarrow> state" where
  "uGnssSetTimeout gnssHandle' timeoutMs' s =
     (if gUGnssPrivateMutex s \<noteq> NULL
      then (let s1 = emit [MutexLock (gUGnssPrivateMutex s)] s;
                s2 = (case pUGnssPrivateGetInstance gnssHandle' (gpUGnssPrivateInstanceList s1) of
                        Some pInstance \<Rightarrow>
                          store (self pInstance) (\<lambda>i. i\<lparr>timeoutMs := timeoutMs'\<rparr>) s1
                      | None \<Rightarrow> s1)
            in emit [MutexUnlock (gUGnssPrivateMutex s2)] s2)
      else s)"

definition uGnssGetUbxMessagePrint :: "ptr \<Rightarrow> state \<Rightarrow> bool \<times> state" where
  "uGnssGetUbxMessagePrint gnssHandle' s =
     (if gUGnssPrivateMutex s \<noteq> NULL
      then (let s1 = emit [MutexLock (gUGnssPrivateMutex s)] s;
                isOn =
                  (case pUGnssPrivateGetInstance gnssHandle' (gpUGnssPrivateInstanceList s1) of
                     Some pInstance \<Rightarrow> printUbxMessages pInstance
                   | None \<Rightarrow> False)
            in (isOn, emit [MutexUnlock (gUGnssPrivateMutex s1)] s1))
      else (False, s))"

definition uGnssSetUbxMessagePrint :: "ptr \<Rightarrow> bool \<Rightarrow> state \<Rightarrow> state" where
  "uGnssSetUbxMessagePrint gnssHandle' onNotOff s =
     (if gUGnssPrivateMutex s \<noteq> NULL
      then (let s1 = emit [MutexLock (gUGnssPrivateMutex s)] s;
                s2 = (case pUGnssPrivateGetInstance gnssHandle' (gpUGnssPrivateInstanceList s1) of
                        Some pInstance \<Rightarrow>
                          store (self pInstance) (\<lambda>i. i\<lparr>printUbxMessages := onNotOff\<rparr>) s1
                      | None \<Rightarrow> s1)
            in emit [MutexUnlock (gUGnssPrivateMutex s2)] s2)
      else s)"

section \<open>The UBX message exchange (u_gnss_private.h)\<close>

text \<open>
  \<open>uGnssPrivateSendOnlyStreamUbxMessage\<close>, \<open>uGnssPrivateReceiveOnlyStreamUbxMessage\<close> and
  \<open>uGnssPrivateSendReceiveUbxMessage\<close> are declared in u_gnss_private.h and defined in a
  file that is not among the sources. This section models them from section 4.3 of the
  spec. The encoding of a frame and the transports are outside the spec's core: the
  encoding is a parameter, and a transport is what its write returns together with what
  arrives on it.
\<close>

text \<open>
  Modelled from the spec: the two errors of the spec's taxonomy (section 7) that a
  message exchange returns, in place of the error codes of the absent
  u_error_common.h.
\<close>

datatype ubxError = Timeout | TransportFailure

text \<open>
  Modelled from the spec: what arrives on a transport while the caller waits, a frame
  (class, id, body), bytes that are no frame, or a failure of the read; the transport
  capability of section 6 of the spec has these outcomes. The code of the transports
  is not among the sources.
\<close>

datatype arrival = Frame int int "nat list" | Noise | ReadError

text \<open>
  Modelled from the spec: a transport, which is what its write returns for the bytes
  given (the number written, or \<open>None\<close> for an error) and what arrives on it, each arrival with
  the time in milliseconds since the wait began, in the order of arrival.
\<close>

record transport =
  transmit :: "nat list \<Rightarrow> nat option"
  incoming :: "(int \<times> arrival) list"

text \<open>
  Modelled from the spec: send-only, whose definition is not among the sources. It
  frames the message and transmits it, and returns the number of bytes transmitted,
  framing included, or the error of the transport.
\<close>

definition uGnssPrivateSendOnlyStreamUbxMessage ::
  "(int \<Rightarrow> int \<Rightarrow> nat list \<Rightarrow> nat list) \<Rightarrow> transport \<Rightarrow> int \<Rightarrow> int \<Rightarrow> nat list
     \<Rightarrow> ubxError + nat" where
  "uGnssPrivateSendOnlyStreamUbxMessage encode tr messageClass messageId pMessageBody =
     (case transmit tr (encode messageClass messageId pMessageBody) of
        None \<Rightarrow> Inl TransportFailure
      | Some sent \<Rightarrow> Inr sent)"

text \<open>
  Modelled from the spec: the wait that receive-only and send-receive make, whose code
  is not among the sources. Bounded by the time-out, it discards what does not match
  and ends at the first frame of the class and id asked for, with the body of that
  frame; an arrival later than the time-out ends it with the time-out error, as does
  the end of the arrivals, and a failed read ends it with the transport error.
\<close>

fun receiveScan :: "int32_t \<Rightarrow> int \<Rightarrow> int \<Rightarrow> (int \<times> arrival) list \<Rightarrow> ubxError + nat list" where
  "receiveScan timeout messageClass messageId [] = Inl Timeout"
| "receiveScan timeout messageClass messageId ((t, a) # rest) =
     (if timeout < t then Inl Timeout
      else (case a of
              Frame c i body \<Rightarrow>
                if c = messageClass \<and> i = messageId then Inr body
                else receiveScan timeout messageClass messageId rest
            | Noise \<Rightarrow> receiveScan timeout messageClass messageId rest
            | ReadError \<Rightarrow> Inl TransportFailure))"

text \<open>
  Modelled from the spec: receive-only, whose definition is not among the sources. The
  body matched is copied out, cut to the room the caller has; the result is the number
  of bytes copied, with those bytes.
\<close>

definition uGnssPrivateReceiveOnlyStreamUbxMessage ::
  "uGnssPrivateInstance_t \<Rightarrow> transport \<Rightarrow> int \<Rightarrow> int \<Rightarrow> nat \<Rightarrow> ubxError + nat \<times> nat list" where
  "uGnssPrivateReceiveOnlyStreamUbxMessage pInstance tr messageClass messageId
       maxBodyLengthBytes =
     (case receiveScan (timeoutMs pInstance) messageClass messageId (incoming tr) of
        Inl e \<Rightarrow> Inl e
      | Inr body \<Rightarrow> Inr (length (take maxBodyLengthBytes body), take maxBodyLengthBytes body))"

text \<open>
  Modelled from the spec: send-receive, whose definition is not among the sources. It
  is send-only followed by the wait for the response of the same class and id; the
  result is the length of the whole body of the response, with the bytes copied out.
\<close>

definition uGnssPrivateSendReceiveUbxMessage ::
  "(int \<Rightarrow> int \<Rightarrow> nat list \<Rightarrow> nat list) \<Rightarrow> uGnssPrivateInstance_t \<Rightarrow> transport \<Rightarrow> int \<Rightarrow> int
     \<Rightarrow> nat list \<Rightarrow> nat \<Rightarrow> ubxError + nat \<times> nat list" where
  "uGnssPrivateSendReceiveUbxMessage encode pInstance tr messageClass messageId pMessageBody
       maxResponseBodyLengthBytes =
     (case uGnssPrivateSendOnlyStreamUbxMessage encode tr messageClass messageId pMessageBody of
        Inl e \<Rightarrow> Inl e
      | Inr sent \<Rightarrow>
          (case receiveScan (timeoutMs pInstance) messageClass messageId (incoming tr) of
             Inl e \<Rightarrow> Inl e
           | Inr body \<Rightarrow> Inr (length body, take maxResponseBodyLengthBytes body)))"

section \<open>Notions used to state the properties\<close>

text \<open>The per-instance teardown of \<open>deleteGnssInstance\<close>, in the order the source makes it.\<close>

definition teardown :: "uGnssPrivateInstance_t \<Rightarrow> effect list" where
  "teardown pInstance =
     [CleanUpPosTask (self pInstance), MutexDelete (transportMutex pInstance),
      DeviceDestroyInstance (gnssHandle pInstance), Unlink (self pInstance),
      Free (self pInstance)]"

definition isI2c :: "uGnssTransportType_t \<Rightarrow> bool" where
  "isI2c t = (t = U_GNSS_TRANSPORT_UBX_I2C \<or> t = U_GNSS_TRANSPORT_NMEA_I2C)"

definition binding ::
  "uGnssPrivateInstance_t \<Rightarrow> uGnssTransportType_t \<times> uGnssTransportHandle_t" where
  "binding i = (transportType i, transportHandle i)"

text \<open>
  What holds of the list in every state the API can build: nodes have addresses of
  their own and handles of their own (\<open>malloc\<close> and \<open>pUDeviceCreateInstance\<close> return
  memory that is not in use), no two instances of a transport type other than the I2C
  ones have the same transport type and handle, and every transport type is a valid one
  (both checked by \<open>uGnssAdd\<close>).
\<close>

definition registry_ok :: "uGnssPrivateInstance_t list \<Rightarrow> bool" where
  "registry_ok xs =
     (distinct (map self xs) \<and> distinct (map gnssHandle xs)
      \<and> distinct (map binding (filter (\<lambda>i. \<not> isI2c (transportType i)) xs))
      \<and> list_all (\<lambda>i. U_GNSS_TRANSPORT_NONE < transportType i
                        \<and> transportType i < U_GNSS_TRANSPORT_MAX_NUM) xs)"

text \<open>The instance \<open>uGnssAdd\<close> has built when it adds it to the list.\<close>

definition newInstance ::
  "config \<Rightarrow> uGnssAdd_env \<Rightarrow> int32_t \<Rightarrow> uGnssTransportType_t \<Rightarrow> uGnssTransportHandle_t
     \<Rightarrow> int32_t \<Rightarrow> uGnssPrivateInstance_t" where
  "newInstance cfg env moduleType tt th pinArg =
     fillInstance cfg moduleType tt th (enablePowerPin cfg pinArg)
       ((zeroed (malloc env))
          \<lparr>pinGnssEnablePowerOnState := enablePowerOnState cfg pinArg,
           gnssHandle := pUDeviceCreateInstance env,
           transportMutex := snd (uPortMutexCreate env)\<rparr>)"

text \<open>
  The pin block of \<open>uGnssAdd\<close> on the values \<open>uGnssAdd\<close> passes to it: the value of
  \<open>platformError\<close> and the GPIO calls.
\<close>

definition gpioCalls :: "config \<Rightarrow> uGnssAdd_env \<Rightarrow> int32_t \<Rightarrow> bool \<Rightarrow> int32_t \<times> effect list" where
  "gpioCalls cfg env pinArg leavePowerAlone =
     sortEnablePowerPin env (enablePowerPin cfg pinArg) (enablePowerOnState cfg pinArg)
       (enablePowerDriveMode cfg (enablePowerOnState cfg pinArg)) leavePowerAlone"

text \<open>
  Every acquisition of \<open>uGnssAdd\<close> succeeds: the device instance, the memory, the
  transport mutex, and the pin set-up reports no error.
\<close>

definition acquisitionsSucceed :: "config \<Rightarrow> uGnssAdd_env \<Rightarrow> int32_t \<Rightarrow> bool \<Rightarrow> bool" where
  "acquisitionsSucceed cfg env pinArg leavePowerAlone =
     (pUDeviceCreateInstance env \<noteq> NULL \<and> malloc env \<noteq> NULL
      \<and> fst (uPortMutexCreate env) = 0 \<and> fst (gpioCalls cfg env pinArg leavePowerAlone) = 0)"

fun isGpio :: "effect \<Rightarrow> bool" where
  "isGpio (GpioSet p l) = True"
| "isGpio (GpioConfig c) = True"
| "isGpio e = False"

text \<open>A C \<open>bool\<close> read as an \<open>int32_t\<close>.\<close>

definition int32_of_bool :: "bool \<Rightarrow> int32_t" where
  "int32_of_bool b = (if b then 1 else 0)"

text \<open>
  An arrival the wait for a frame passes over: bytes that are no frame, or a frame of
  another class or id. \<open>inTimePassedOver\<close>: every arrival of the list is within the
  time-out and is passed over.
\<close>

fun passedOver :: "int \<Rightarrow> int \<Rightarrow> arrival \<Rightarrow> bool" where
  "passedOver messageClass messageId (Frame c i body) = (\<not> (c = messageClass \<and> i = messageId))"
| "passedOver messageClass messageId Noise = True"
| "passedOver messageClass messageId ReadError = False"

definition inTimePassedOver :: "int32_t \<Rightarrow> int \<Rightarrow> int \<Rightarrow> (int \<times> arrival) list \<Rightarrow> bool" where
  "inTimePassedOver timeout messageClass messageId xs =
     list_all (\<lambda>(t, a). t \<le> timeout \<and> passedOver messageClass messageId a) xs"

text \<open>
  The shape the four \<open>void\<close> setters share (lemma \<open>setters_setField\<close>): under the
  mutex, the instance found by the handle gets one field written; nothing is written
  when there is none.
\<close>

definition setField ::
  "ptr \<Rightarrow> (uGnssPrivateInstance_t \<Rightarrow> uGnssPrivateInstance_t) \<Rightarrow> state \<Rightarrow> state" where
  "setField gnssHandle' f s =
     (if gUGnssPrivateMutex s \<noteq> NULL
      then (let s1 = emit [MutexLock (gUGnssPrivateMutex s)] s;
                s2 = (case pUGnssPrivateGetInstance gnssHandle' (gpUGnssPrivateInstanceList s1) of
                        Some pInstance \<Rightarrow> store (self pInstance) f s1
                      | None \<Rightarrow> s1)
            in emit [MutexUnlock (gUGnssPrivateMutex s2)] s2)
      else s)"

section \<open>Concrete configurations and states\<close>

text \<open>
  A configuration, call results and registry states at which the model is evaluated.
  \<open>s1\<close> is the registry after one successful \<open>uGnssAdd\<close> on UART 7
  (lemma \<open>s1_reachable\<close>), \<open>s2\<close> the registry after a second one on I2C bus 3.
\<close>

definition cfg0 :: config where
  "cfg0 = \<lparr>U_ERROR_COMMON_NOT_INITIALISED = - 2, U_ERROR_COMMON_INVALID_PARAMETER = - 5,
           U_ERROR_COMMON_NO_MEMORY = - 6, U_GNSS_PIN_INVERTED = 128,
           U_GNSS_PIN_ENABLE_POWER_ON_STATE = 1, U_GNSS_PIN_ENABLE_POWER_DRIVE_MODE = None,
           U_GNSS_I2C_ADDRESS = 66, U_GNSS_DEFAULT_TIMEOUT_MS = 10000,
           gUGnssPrivateModuleListSize = 2\<rparr>"

definition env0 :: uGnssAdd_env where
  "env0 = \<lparr>pUDeviceCreateInstance = 100, malloc = 200, uPortMutexCreate = (0, 300),
           uPortGpioSet = 0, uPortGpioConfig = 0\<rparr>"

definition env1 :: uGnssAdd_env where
  "env1 = \<lparr>pUDeviceCreateInstance = 101, malloc = 201, uPortMutexCreate = (0, 301),
           uPortGpioSet = 0, uPortGpioConfig = 0\<rparr>"

definition env2 :: uGnssAdd_env where
  "env2 = \<lparr>pUDeviceCreateInstance = 102, malloc = 202, uPortMutexCreate = (0, 302),
           uPortGpioSet = 0, uPortGpioConfig = 0\<rparr>"

definition sU :: state where
  "sU = \<lparr>gUGnssPrivateMutex = NULL, gpUGnssPrivateInstanceList = [], effects = []\<rparr>"

definition s0 :: state where
  "s0 = \<lparr>gUGnssPrivateMutex = 1, gpUGnssPrivateInstanceList = [], effects = []\<rparr>"

definition instance1 :: uGnssPrivateInstance_t where
  "instance1 =
     \<lparr>self = 200, gnssHandle = 100, pModule = Some 0, transportType = U_GNSS_TRANSPORT_UBX_UART,
      transportHandle = 7, i2cAddress = 66, timeoutMs = 10000, printUbxMessages = False,
      pinGnssEnablePower = 5, pinGnssEnablePowerOnState = 1, atModulePinPwr = - 1,
      atModulePinDataReady = - 1, portNumber = 1, transportMutex = 300, posTask = NULL,
      posMutex = NULL, posTaskFlags = 0\<rparr>"

definition instance2 :: uGnssPrivateInstance_t where
  "instance2 =
     \<lparr>self = 201, gnssHandle = 101, pModule = Some 1, transportType = U_GNSS_TRANSPORT_UBX_I2C,
      transportHandle = 3, i2cAddress = 66, timeoutMs = 10000, printUbxMessages = False,
      pinGnssEnablePower = - 129, pinGnssEnablePowerOnState = 0, atModulePinPwr = - 1,
      atModulePinDataReady = - 1, portNumber = 0, transportMutex = 301, posTask = NULL,
      posMutex = NULL, posTaskFlags = 0\<rparr>"

definition s1 :: state where
  "s1 = \<lparr>gUGnssPrivateMutex = 1, gpUGnssPrivateInstanceList = [instance1], effects = []\<rparr>"

definition s2 :: state where
  "s2 = \<lparr>gUGnssPrivateMutex = 1, gpUGnssPrivateInstanceList = [instance2, instance1],
          effects = []\<rparr>"

text \<open>
  A transport whose write succeeds and on which a frame of class 10 and id 4 with a
  body of four bytes arrives after 40 ms, behind noise and a frame of another class;
  and an encoding that puts two bytes in front of the body.
\<close>

definition tr0 :: transport where
  "tr0 = \<lparr>transmit = (\<lambda>bytes. Some (length bytes)),
          incoming = [(3, Noise), (10, Frame 5 1 [6, 2]), (40, Frame 10 4 [1, 2, 3, 4]),
                      (70, Frame 10 4 [9])]\<rparr>"

definition encode0 :: "int \<Rightarrow> int \<Rightarrow> nat list \<Rightarrow> nat list" where
  "encode0 messageClass messageId body = [181, 98] @ body"

section \<open>Lemmas\<close>

subsection \<open>The list functions\<close>

lemma pGet_None_iff:
  "pGetGnssInstanceTransportHandle tt th xs = None \<longleftrightarrow>
     (\<forall>i \<in> set xs. \<not> (transportType i = tt \<and> transportHandleMatch tt (transportHandle i) th))"
  by (induction xs) auto

lemma pGet_Some:
  "pGetGnssInstanceTransportHandle tt th xs = Some i \<Longrightarrow>
     i \<in> set xs \<and> transportType i = tt \<and> transportHandleMatch tt (transportHandle i) th"
  by (induction xs) (auto split: if_splits)

lemma lookup_Some:
  "pUGnssPrivateGetInstance h xs = Some i \<Longrightarrow> i \<in> set xs \<and> gnssHandle i = h"
  by (induction xs) (auto split: if_splits)

lemma lookup_None_iff:
  "pUGnssPrivateGetInstance h xs = None \<longleftrightarrow> h \<notin> gnssHandle ` set xs"
  by (induction xs) auto

lemma delete_loop_member:
  "i \<in> set xs \<Longrightarrow> distinct (map self xs) \<Longrightarrow>
     deleteGnssInstance_loop (self i) xs = (remove1 i xs, teardown i)"
proof (induction xs)
  case Nil
  then show ?case by simp
next
  case (Cons a xs)
  show ?case
  proof (cases "i = a")
    case True
    then show ?thesis by (simp add: teardown_def)
  next
    case False
    with Cons.prems have m: "i \<in> set xs" by simp
    then have "self i \<in> self ` set xs" by (rule imageI)
    with Cons.prems have "self i \<noteq> self a" by auto
    with Cons m show ?thesis using False by auto
  qed
qed

lemma lookup_remove1:
  "pUGnssPrivateGetInstance h xs = Some i \<Longrightarrow> distinct (map gnssHandle xs) \<Longrightarrow>
     pUGnssPrivateGetInstance h (remove1 i xs) = None"
  by (induction xs) (auto simp: lookup_None_iff split: if_splits dest: lookup_Some)

lemma match_valid:
  "U_GNSS_TRANSPORT_NONE < tt \<Longrightarrow> tt < U_GNSS_TRANSPORT_MAX_NUM \<Longrightarrow>
     transportHandleMatch tt a b \<longleftrightarrow> a = b"
  by (auto simp: transportHandleMatch_def uart_def pAt_def i2c_def)

lemma pGet_remove1:
  assumes "i \<in> set xs" "registry_ok xs" "\<not> isI2c (transportType i)"
  shows "pGetGnssInstanceTransportHandle (transportType i) (transportHandle i) (remove1 i xs) = None"
proof -
  let ?f = "filter (\<lambda>i. \<not> isI2c (transportType i))"
  have d: "distinct (map binding (?f xs))" using assms(2) by (simp add: registry_ok_def)
  have v: "\<And>j. j \<in> set xs \<Longrightarrow> 0 < transportType j \<and> transportType j < 6"
    using assms(2) by (auto simp: registry_ok_def list_all_iff)
  have "binding i \<notin> binding ` set (?f (remove1 i xs))"
    using assms(1,3) d
  proof (induction xs)
    case Nil then show ?case by simp
  next
    case (Cons a xs)
    show ?case
    proof (cases "i = a")
      case True
      with Cons.prems show ?thesis by (auto simp: image_iff)
    next
      case False
      with Cons.prems have m: "i \<in> set xs" by simp
      have "binding i \<noteq> binding a" if "\<not> isI2c (transportType a)"
        using that Cons.prems m by (auto simp: image_iff)
      with Cons.IH[OF m] Cons.prems False show ?thesis by auto
    qed
  qed
  then have "\<forall>j \<in> set (remove1 i xs). \<not> (transportType j = transportType i \<and> transportHandle j = transportHandle i)"
  proof (intro ballI notI)
    fix j assume j: "j \<in> set (remove1 i xs)"
      and e: "transportType j = transportType i \<and> transportHandle j = transportHandle i"
    and n: "binding i \<notin> binding ` set (?f (remove1 i xs))"
    from j e assms(3) have "j \<in> set (?f (remove1 i xs))" by simp
    then have "binding j \<in> binding ` set (?f (remove1 i xs))" by (rule imageI)
    moreover have "binding j = binding i" using e by (simp add: binding_def)
    ultimately show False using n by simp
  qed
  moreover have "\<And>j. j \<in> set (remove1 i xs) \<Longrightarrow> j \<in> set xs" by (meson notin_set_remove1)
  ultimately show ?thesis
    using v[OF assms(1)] by (auto simp: pGet_None_iff match_valid)
qed

lemma store_member:
  "i \<in> set xs \<Longrightarrow> distinct (map self xs) \<Longrightarrow> gnssHandle (f i) = gnssHandle i \<Longrightarrow>
   pUGnssPrivateGetInstance h xs = Some i \<Longrightarrow>
     pUGnssPrivateGetInstance h (storeInstance (self i) f xs) = Some (f i)"
  by (induction xs) (auto split: if_splits dest: lookup_Some)

lemma deinit_loop_eq:
  "uGnssDeinit_loop s =
     s\<lparr>gpUGnssPrivateInstanceList := [],
       effects := effects s @ concat (map teardown (gpUGnssPrivateInstanceList s))\<rparr>"
proof (induction "gpUGnssPrivateInstanceList s" arbitrary: s)
  case Nil
  then show ?case by (subst uGnssDeinit_loop.simps) (simp flip: Nil)
next
  case (Cons a xs)
  have step: "deleteGnssInstance (self a) s = s\<lparr>gpUGnssPrivateInstanceList := xs, effects := effects s @ teardown a\<rparr>"
    using Cons(2)[symmetric] by (simp add: deleteGnssInstance_def emit_def teardown_def)
  have "uGnssDeinit_loop s = uGnssDeinit_loop (deleteGnssInstance (self a) s)"
    by (subst uGnssDeinit_loop.simps) (simp flip: Cons(2))
  also have "\<dots> = (deleteGnssInstance (self a) s)\<lparr>gpUGnssPrivateInstanceList := [],
       effects := effects (deleteGnssInstance (self a) s) @ concat (map teardown (gpUGnssPrivateInstanceList (deleteGnssInstance (self a) s)))\<rparr>"
    by (rule Cons(1)) (simp add: step)
  also have "\<dots> = s\<lparr>gpUGnssPrivateInstanceList := [],
       effects := effects s @ concat (map teardown (gpUGnssPrivateInstanceList s))\<rparr>"
    by (simp add: step flip: Cons(2))
  finally show ?case .
qed

subsection \<open>The paths through \<open>uGnssAdd\<close>\<close>

lemmas add_defs = uGnssAdd_def uGnssAdd_allocate_def Let_def emit_def addGnssInstance_def
  newInstance_def gpioCalls_def acquisitionsSucceed_def

lemma add_not_initialised:
  "gUGnssPrivateMutex s = NULL \<Longrightarrow>
     uGnssAdd cfg env m tt th pinArg l s = (U_ERROR_COMMON_NOT_INITIALISED cfg, None, s)"
  by (simp add: add_defs)

lemma add_no_device:
  "gUGnssPrivateMutex s \<noteq> NULL \<Longrightarrow> pUDeviceCreateInstance env = NULL \<Longrightarrow>
     uGnssAdd cfg env m tt th pinArg l s =
       (U_ERROR_COMMON_NO_MEMORY cfg, None, emit [DeviceCreateInstance NULL] s)"
  by (simp add: add_defs)

lemma add_invalid:
  "gUGnssPrivateMutex s \<noteq> NULL \<Longrightarrow> pUDeviceCreateInstance env \<noteq> NULL \<Longrightarrow>
   \<not> checkParameters cfg m tt th (gpUGnssPrivateInstanceList s) \<Longrightarrow>
     uGnssAdd cfg env m tt th pinArg l s =
       (U_ERROR_COMMON_INVALID_PARAMETER cfg, None,
        emit ([DeviceCreateInstance (pUDeviceCreateInstance env), MutexLock (gUGnssPrivateMutex s)]
              @ (if U_ERROR_COMMON_INVALID_PARAMETER cfg \<noteq> U_ERROR_COMMON_SUCCESS
                 then [DeviceDestroyInstance (pUDeviceCreateInstance env)] else [])
              @ [MutexUnlock (gUGnssPrivateMutex s)]) s)"
  by (simp add: add_defs)

lemma add_no_memory:
  "gUGnssPrivateMutex s \<noteq> NULL \<Longrightarrow> pUDeviceCreateInstance env \<noteq> NULL \<Longrightarrow>
   checkParameters cfg m tt th (gpUGnssPrivateInstanceList s) \<Longrightarrow> malloc env = NULL \<Longrightarrow>
     uGnssAdd cfg env m tt th pinArg l s =
       (U_ERROR_COMMON_NO_MEMORY cfg, None,
        emit ([DeviceCreateInstance (pUDeviceCreateInstance env), MutexLock (gUGnssPrivateMutex s),
               Malloc NULL]
              @ (if U_ERROR_COMMON_NO_MEMORY cfg \<noteq> U_ERROR_COMMON_SUCCESS
                 then [DeviceDestroyInstance (pUDeviceCreateInstance env)] else [])
              @ [MutexUnlock (gUGnssPrivateMutex s)]) s)"
  by (simp add: add_defs)

lemma add_mutex_failure:
  "gUGnssPrivateMutex s \<noteq> NULL \<Longrightarrow> pUDeviceCreateInstance env \<noteq> NULL \<Longrightarrow>
   checkParameters cfg m tt th (gpUGnssPrivateInstanceList s) \<Longrightarrow> malloc env \<noteq> NULL \<Longrightarrow>
   fst (uPortMutexCreate env) \<noteq> 0 \<Longrightarrow>
     uGnssAdd cfg env m tt th pinArg l s =
       (fst (uPortMutexCreate env), None,
        emit ([DeviceCreateInstance (pUDeviceCreateInstance env), MutexLock (gUGnssPrivateMutex s),
               Malloc (malloc env),
               MutexCreate (fst (uPortMutexCreate env)) (snd (uPortMutexCreate env))]
              @ (if snd (uPortMutexCreate env) \<noteq> NULL
                 then [MutexDelete (snd (uPortMutexCreate env))] else [])
              @ [Free (malloc env), DeviceDestroyInstance (pUDeviceCreateInstance env),
                 MutexUnlock (gUGnssPrivateMutex s)]) s)"
  by (simp add: add_defs split: prod.splits) (auto simp: zeroed_def)

lemma add_gpio_failure:
  "gUGnssPrivateMutex s \<noteq> NULL \<Longrightarrow> pUDeviceCreateInstance env \<noteq> NULL \<Longrightarrow>
   checkParameters cfg m tt th (gpUGnssPrivateInstanceList s) \<Longrightarrow> malloc env \<noteq> NULL \<Longrightarrow>
   fst (uPortMutexCreate env) = 0 \<Longrightarrow> fst (gpioCalls cfg env pinArg l) \<noteq> 0 \<Longrightarrow>
     uGnssAdd cfg env m tt th pinArg l s =
       (U_ERROR_COMMON_SUCCESS, None,
        emit ([DeviceCreateInstance (pUDeviceCreateInstance env), MutexLock (gUGnssPrivateMutex s),
               Malloc (malloc env), MutexCreate 0 (snd (uPortMutexCreate env))]
              @ snd (gpioCalls cfg env pinArg l)
              @ (if snd (uPortMutexCreate env) \<noteq> NULL
                 then [MutexDelete (snd (uPortMutexCreate env))] else [])
              @ [Free (malloc env), MutexUnlock (gUGnssPrivateMutex s)]) s)"
  by (simp add: add_defs split: prod.splits) (auto simp: zeroed_def fillInstance_def)

lemma add_success:
  "gUGnssPrivateMutex s \<noteq> NULL \<Longrightarrow>
   checkParameters cfg m tt th (gpUGnssPrivateInstanceList s) \<Longrightarrow>
   acquisitionsSucceed cfg env pinArg l \<Longrightarrow>
     uGnssAdd cfg env m tt th pinArg l s =
       (U_ERROR_COMMON_SUCCESS, Some (pUDeviceCreateInstance env),
        s\<lparr>gpUGnssPrivateInstanceList :=
             newInstance cfg env m tt th pinArg # gpUGnssPrivateInstanceList s,
          effects := effects s @
            [DeviceCreateInstance (pUDeviceCreateInstance env), MutexLock (gUGnssPrivateMutex s),
             Malloc (malloc env), MutexCreate 0 (snd (uPortMutexCreate env))]
            @ snd (gpioCalls cfg env pinArg l) @ [MutexUnlock (gUGnssPrivateMutex s)]\<rparr>)"
  by (simp add: add_defs split: prod.splits) (auto simp: zeroed_def fillInstance_def)

lemma add_written:
  "uGnssAdd cfg env m tt th pinArg l s = (rc, Some h, s') \<Longrightarrow>
     gUGnssPrivateMutex s \<noteq> NULL \<and> checkParameters cfg m tt th (gpUGnssPrivateInstanceList s)
     \<and> acquisitionsSucceed cfg env pinArg l"
  apply (cases "gUGnssPrivateMutex s = NULL")
   apply (simp add: add_not_initialised)
  apply (cases "pUDeviceCreateInstance env = NULL")
   apply (simp add: add_no_device)
  apply (cases "checkParameters cfg m tt th (gpUGnssPrivateInstanceList s)")
   prefer 2 apply (simp add: add_invalid)
  apply (cases "malloc env = NULL")
   apply (simp add: add_no_memory)
  apply (cases "fst (uPortMutexCreate env) = 0")
   prefer 2 apply (simp add: add_mutex_failure)
  apply (cases "fst (gpioCalls cfg env pinArg l) = 0")
   prefer 2 apply (simp add: add_gpio_failure)
  apply (simp add: acquisitionsSucceed_def)
  done

lemma not_bound_check:
  assumes "size_t_of m < gUGnssPrivateModuleListSize cfg"
    and "U_GNSS_TRANSPORT_NONE < tt" and "tt < U_GNSS_TRANSPORT_MAX_NUM"
    and "isI2c tt \<or> (tt, th) \<notin> binding ` set xs"
  shows "checkParameters cfg m tt th xs"
proof (cases "isI2c tt")
  case True
  with assms(1-3) show ?thesis by (auto simp: checkParameters_def isI2c_def)
next
  case False
  with assms(4) have "(tt, th) \<notin> binding ` set xs" by simp
  then have "\<forall>i \<in> set xs. \<not> (transportType i = tt \<and> transportHandle i = th)"
    by (auto simp: binding_def image_iff)
  then have "pGetGnssInstanceTransportHandle tt th xs = None"
    using assms(2,3) by (simp add: pGet_None_iff match_valid)
  with assms(1-3) show ?thesis by (simp add: checkParameters_def)
qed

lemma newInstance_gnssHandle [simp]:
  "gnssHandle (newInstance cfg env m tt th pinArg) = pUDeviceCreateInstance env"
  by (simp add: newInstance_def fillInstance_def)

lemma gpioCalls_connected:
  assumes "0 \<le> and pinArg (not (U_GNSS_PIN_INVERTED cfg))"
  shows "snd (gpioCalls cfg env pinArg leavePowerAlone) =
           (if leavePowerAlone then []
            else [GpioSet (and pinArg (not (U_GNSS_PIN_INVERTED cfg)))
                    (logicalNot (enablePowerOnState cfg pinArg))])
           @ (if leavePowerAlone \<or> uPortGpioSet env = 0
              then [GpioConfig \<lparr>pin = and pinArg (not (U_GNSS_PIN_INVERTED cfg)),
                                pullMode = U_PORT_GPIO_PULL_MODE_NONE,
                                driveMode = enablePowerDriveMode cfg (enablePowerOnState cfg pinArg),
                                direction = U_PORT_GPIO_DIRECTION_OUTPUT\<rparr>]
              else [])"
  using assms by (simp add: gpioCalls_def sortEnablePowerPin_def enablePowerPin_def)

lemma gpioCalls_all_gpio:
  "filter isGpio (snd (gpioCalls cfg env pinArg leavePowerAlone))
     = snd (gpioCalls cfg env pinArg leavePowerAlone)"
  by (simp add: gpioCalls_def sortEnablePowerPin_def)

lemma add_gpio_effects:
  assumes "gUGnssPrivateMutex s \<noteq> NULL" and "pUDeviceCreateInstance env \<noteq> NULL"
    and "checkParameters cfg m tt th (gpUGnssPrivateInstanceList s)"
    and "malloc env \<noteq> NULL" and "fst (uPortMutexCreate env) = 0"
  shows "filter isGpio (effects (snd (snd (uGnssAdd cfg env m tt th pinArg l s))))
           = filter isGpio (effects s) @ snd (gpioCalls cfg env pinArg l)"
proof (cases "fst (gpioCalls cfg env pinArg l) = 0")
  case True
  with assms have "acquisitionsSucceed cfg env pinArg l" by (simp add: acquisitionsSucceed_def)
  then show ?thesis
    by (simp add: add_success [OF assms(1,3)] gpioCalls_all_gpio)
next
  case False
  then show ?thesis
    by (simp add: add_gpio_failure [OF assms] emit_def gpioCalls_all_gpio)
qed

lemma bound_check_fails:
  assumes "inst \<in> set xs" and "\<not> isI2c (transportType inst)"
  shows "\<not> checkParameters cfg m (transportType inst) (transportHandle inst) xs"
proof (cases "U_GNSS_TRANSPORT_NONE < transportType inst
              \<and> transportType inst < U_GNSS_TRANSPORT_MAX_NUM")
  case True
  then have "transportHandleMatch (transportType inst) (transportHandle inst) (transportHandle inst)"
    by (simp add: match_valid)
  with assms(1) have "pGetGnssInstanceTransportHandle (transportType inst) (transportHandle inst) xs
                        \<noteq> None"
    by (auto simp: pGet_None_iff)
  with assms(2) show ?thesis by (simp add: checkParameters_def isI2c_def)
next
  case False
  then show ?thesis by (auto simp: checkParameters_def)
qed

subsection \<open>Evaluation at the concrete states\<close>

lemmas eval_defs = cfg0_def env0_def env1_def env2_def s0_def s1_def s2_def
  instance1_def instance2_def
  checkParameters_def size_t_of_def enablePowerOnState_def enablePowerPin_def
  enablePowerDriveMode_def sortEnablePowerPin_def logicalNot_def zeroed_def fillInstance_def
  transportHandleMatch_def uart_def pAt_def i2c_def store_def

lemma s1_reachable:
  "uGnssAdd cfg0 env0 0 U_GNSS_TRANSPORT_UBX_UART 7 5 False s0 =
     (U_ERROR_COMMON_SUCCESS, Some 100,
      s1\<lparr>effects := [DeviceCreateInstance 100, MutexLock 1, Malloc 200, MutexCreate 0 300,
                      GpioSet 5 0,
                      GpioConfig \<lparr>pin = 5, pullMode = U_PORT_GPIO_PULL_MODE_NONE,
                                  driveMode = U_PORT_GPIO_DRIVE_MODE_NORMAL,
                                  direction = U_PORT_GPIO_DIRECTION_OUTPUT\<rparr>,
                      MutexUnlock 1]\<rparr>)"
  by (simp add: add_defs eval_defs)

lemma s2_reachable:
  "uGnssAdd cfg0 env1 1 U_GNSS_TRANSPORT_UBX_I2C 3 (- 1) False s1 =
     (U_ERROR_COMMON_SUCCESS, Some 101,
      s2\<lparr>effects := [DeviceCreateInstance 101, MutexLock 1, Malloc 201, MutexCreate 0 301,
                      MutexUnlock 1]\<rparr>)"
  by (simp add: add_defs eval_defs)

lemma env2_succeeds: "acquisitionsSucceed cfg0 env2 5 False"
  by (simp add: acquisitionsSucceed_def gpioCalls_def eval_defs)

lemma setI2c_found:
  assumes "gUGnssPrivateMutex s \<noteq> NULL"
    and "pUGnssPrivateGetInstance h (gpUGnssPrivateInstanceList s) = Some inst"
  shows "uGnssSetI2cAddress cfg h v s =
           (if v > 0
            then (U_ERROR_COMMON_SUCCESS,
                  emit [MutexLock (gUGnssPrivateMutex s), MutexUnlock (gUGnssPrivateMutex s)]
                    (store (self inst) (\<lambda>i. i\<lparr>i2cAddress := v mod 2 ^ 16\<rparr>) s))
            else (U_ERROR_COMMON_INVALID_PARAMETER cfg,
                  emit [MutexLock (gUGnssPrivateMutex s), MutexUnlock (gUGnssPrivateMutex s)] s))"
  using assms by (simp add: uGnssSetI2cAddress_def Let_def emit_def store_def)

lemma getI2c_fst:
  "gUGnssPrivateMutex s \<noteq> NULL \<Longrightarrow>
     fst (uGnssGetI2cAddress cfg h s) =
       (case pUGnssPrivateGetInstance h (gpUGnssPrivateInstanceList s) of
          Some i \<Rightarrow> i2cAddress i | None \<Rightarrow> U_ERROR_COMMON_INVALID_PARAMETER cfg)"
  by (simp add: uGnssGetI2cAddress_def Let_def emit_def)

lemma setters_setField:
  "uGnssSetTimeout h v s = setField h (\<lambda>i. i\<lparr>timeoutMs := v\<rparr>) s"
  "uGnssSetAtPinPwr h v s = setField h (\<lambda>i. i\<lparr>atModulePinPwr := v\<rparr>) s"
  "uGnssSetAtPinDataReady h v s = setField h (\<lambda>i. i\<lparr>atModulePinDataReady := v\<rparr>) s"
  "uGnssSetUbxMessagePrint h b s = setField h (\<lambda>i. i\<lparr>printUbxMessages := b\<rparr>) s"
  by (simp_all add: uGnssSetTimeout_def uGnssSetAtPinPwr_def uGnssSetAtPinDataReady_def
      uGnssSetUbxMessagePrint_def setField_def)

lemma setField_unknown:
  "pUGnssPrivateGetInstance h (gpUGnssPrivateInstanceList s) = None \<Longrightarrow>
     setField h f s =
       (if gUGnssPrivateMutex s \<noteq> NULL
        then emit [MutexLock (gUGnssPrivateMutex s), MutexUnlock (gUGnssPrivateMutex s)] s
        else s)"
  by (simp add: setField_def Let_def emit_def)

lemma setField_unknown_registry:
  assumes "pUGnssPrivateGetInstance h (gpUGnssPrivateInstanceList s) = None"
  shows "gpUGnssPrivateInstanceList (setField h f s) = gpUGnssPrivateInstanceList s
       \<and> gUGnssPrivateMutex (setField h f s) = gUGnssPrivateMutex s"
  by (simp add: setField_unknown [OF assms] emit_def)

lemma remove_unknown:
  "gUGnssPrivateMutex s \<noteq> NULL \<Longrightarrow>
   pUGnssPrivateGetInstance h (gpUGnssPrivateInstanceList s) = None \<Longrightarrow>
     uGnssRemove h s =
       emit [MutexLock (gUGnssPrivateMutex s), MutexUnlock (gUGnssPrivateMutex s)] s"
  by (simp add: uGnssRemove_def Let_def emit_def)

lemma remove_found:
  assumes "gUGnssPrivateMutex s \<noteq> NULL"
    and "distinct (map self (gpUGnssPrivateInstanceList s))"
    and "pUGnssPrivateGetInstance h (gpUGnssPrivateInstanceList s) = Some inst"
  shows "uGnssRemove h s =
           s\<lparr>gpUGnssPrivateInstanceList := remove1 inst (gpUGnssPrivateInstanceList s),
             effects := effects s @ [MutexLock (gUGnssPrivateMutex s)] @ teardown inst
                          @ [MutexUnlock (gUGnssPrivateMutex s)]\<rparr>"
proof -
  have m: "inst \<in> set (gpUGnssPrivateInstanceList s)"
    using assms(3) by (simp add: lookup_Some)
  show ?thesis
    using assms(1,3)
    by (simp add: uGnssRemove_def Let_def emit_def deleteGnssInstance_def
        delete_loop_member [OF m assms(2)])
qed

lemma registry_ok_s2: "registry_ok (gpUGnssPrivateInstanceList s2)"
  by (simp add: registry_ok_def s2_def instance1_def instance2_def isI2c_def binding_def)

lemma deinit_eq:
  "gUGnssPrivateMutex s \<noteq> NULL \<Longrightarrow>
     uGnssDeinit s =
       s\<lparr>gUGnssPrivateMutex := NULL, gpUGnssPrivateInstanceList := [],
         effects := effects s @ [MutexLock (gUGnssPrivateMutex s)]
                      @ concat (map teardown (gpUGnssPrivateInstanceList s))
                      @ [MutexUnlock (gUGnssPrivateMutex s),
                         MutexDelete (gUGnssPrivateMutex s)]\<rparr>"
  by (simp add: uGnssDeinit_def Let_def deinit_loop_eq emit_def)

lemma deinit_uninitialised: "gUGnssPrivateMutex s = NULL \<Longrightarrow> uGnssDeinit s = s"
  by (simp add: uGnssDeinit_def)

lemma uninitialised_operations:
  assumes "gUGnssPrivateMutex t = NULL"
  shows "uGnssAdd cfg env moduleType tt th pinArg leavePowerAlone t
           = (U_ERROR_COMMON_NOT_INITIALISED cfg, None, t)"
    and "uGnssSetI2cAddress cfg h v t = (U_ERROR_COMMON_NOT_INITIALISED cfg, t)"
    and "uGnssGetI2cAddress cfg h t = (U_ERROR_COMMON_NOT_INITIALISED cfg, t)"
    and "uGnssGetTimeout cfg h t = (U_ERROR_COMMON_NOT_INITIALISED cfg, t)"
    and "uGnssGetTransportHandle cfg h pTransportType pTransportHandle t
           = (U_ERROR_COMMON_NOT_INITIALISED cfg, None, None, t)"
    and "uGnssGetUbxMessagePrint h t = (False, t)"
    and "uGnssSetTimeout h v t = t"
    and "uGnssSetAtPinPwr h v t = t"
    and "uGnssSetAtPinDataReady h v t = t"
    and "uGnssSetUbxMessagePrint h b t = t"
    and "uGnssRemove h t = t"
    and "uGnssDeinit t = t"
  using assms
  by (simp_all add: add_not_initialised uGnssSetI2cAddress_def uGnssGetI2cAddress_def
      uGnssGetTimeout_def uGnssGetTransportHandle_def uGnssGetUbxMessagePrint_def
      setters_setField setField_def uGnssRemove_def uGnssDeinit_def)

subsection \<open>The wait for a frame\<close>

lemma scan_skips:
  "inTimePassedOver T c i pre \<Longrightarrow> receiveScan T c i (pre @ rest) = receiveScan T c i rest"
proof (induction pre)
  case Nil
  then show ?case by simp
next
  case (Cons x pre)
  obtain t a where x: "x = (t, a)" by (cases x)
  from Cons.prems have h: "t \<le> T" "passedOver c i a" "inTimePassedOver T c i pre"
    by (simp_all add: inTimePassedOver_def x)
  from h(1,2) Cons.IH [OF h(3)] show ?case
    by (cases a) (auto simp: x)
qed

lemma scan_times_out:
  "list_all (\<lambda>(t, a). t \<le> T \<longrightarrow> passedOver c i a) xs \<Longrightarrow> receiveScan T c i xs = Inl Timeout"
proof (induction xs)
  case Nil
  then show ?case by simp
next
  case (Cons x xs)
  obtain t a where x: "x = (t, a)" by (cases x)
  from Cons show ?case
    by (cases a) (auto simp: x)
qed

subsection \<open>\<open>registry_ok\<close> is kept\<close>

text \<open>
  \<open>uGnssAdd\<close> keeps \<open>registry_ok\<close> when \<open>malloc\<close> and \<open>pUDeviceCreateInstance\<close> return
  pointers that no live instance has; \<open>uGnssRemove\<close> keeps it, and so does a write to a
  field that is none of the address, the handle and the transport.
\<close>

lemma registry_ok_new:
  assumes ok: "registry_ok xs"
    and c: "checkParameters cfg m tt th xs"
    and fa: "malloc env \<notin> self ` set xs"
    and fh: "pUDeviceCreateInstance env \<notin> gnssHandle ` set xs"
  shows "registry_ok (newInstance cfg env m tt th pinArg # xs)"
proof -
  let ?n = "newInstance cfg env m tt th pinArg"
  have n: "self ?n = malloc env" "gnssHandle ?n = pUDeviceCreateInstance env"
    "transportType ?n = tt" "transportHandle ?n = th"
    by (simp_all add: newInstance_def fillInstance_def zeroed_def)
  from c have v: "U_GNSS_TRANSPORT_NONE < tt" "tt < U_GNSS_TRANSPORT_MAX_NUM"
    by (simp_all add: checkParameters_def)
  have b: "binding ?n \<notin> binding ` set (filter (\<lambda>i. \<not> isI2c (transportType i)) xs)"
    if "\<not> isI2c tt"
  proof
    assume "binding ?n \<in> binding ` set (filter (\<lambda>i. \<not> isI2c (transportType i)) xs)"
    then obtain j where j: "j \<in> set xs" "binding j = binding ?n" by auto
    then have "transportType j = tt \<and> transportHandle j = th" by (simp add: binding_def n)
    moreover from c that have "pGetGnssInstanceTransportHandle tt th xs = None"
      by (simp add: checkParameters_def isI2c_def)
    ultimately show False using j(1) v by (auto simp: pGet_None_iff match_valid)
  qed
  from ok fa fh v b show ?thesis
    by (auto simp: registry_ok_def n)
qed

lemma distinct_map_remove1:
  "distinct (map f xs) \<Longrightarrow> distinct (map f (remove1 x xs))"
proof -
  assume d: "distinct (map f xs)"
  then have "distinct xs" and i: "inj_on f (set xs)" by (simp_all add: distinct_map)
  moreover have "set (remove1 x xs) \<subseteq> set xs" by (rule set_remove1_subset)
  ultimately show ?thesis
    by (simp add: distinct_map inj_on_subset [OF i])
qed

lemma registry_ok_remove1:
  assumes "registry_ok xs"
  shows "registry_ok (remove1 i xs)"
proof -
  have "list_all P (remove1 i xs)" if "list_all P xs" for P
    using that by (auto simp: list_all_iff dest: notin_set_remove1)
  with assms show ?thesis
    by (simp add: registry_ok_def distinct_map_remove1 filter_remove1)
qed

lemma add_list:
  "gpUGnssPrivateInstanceList (snd (snd (uGnssAdd cfg env m tt th pinArg l s))) =
     (if gUGnssPrivateMutex s \<noteq> NULL \<and> checkParameters cfg m tt th (gpUGnssPrivateInstanceList s)
         \<and> acquisitionsSucceed cfg env pinArg l
      then newInstance cfg env m tt th pinArg # gpUGnssPrivateInstanceList s
      else gpUGnssPrivateInstanceList s)"
proof (cases "gUGnssPrivateMutex s \<noteq> NULL \<and> checkParameters cfg m tt th (gpUGnssPrivateInstanceList s)
         \<and> acquisitionsSucceed cfg env pinArg l")
  case True
  then show ?thesis by (simp add: add_success)
next
  case False
  obtain rc w s' where r: "uGnssAdd cfg env m tt th pinArg l s = (rc, w, s')"
    by (cases "uGnssAdd cfg env m tt th pinArg l s") auto
  have "gpUGnssPrivateInstanceList s' = gpUGnssPrivateInstanceList s"
  proof (cases "gUGnssPrivateMutex s = NULL")
    case True
    with r show ?thesis by (simp add: add_not_initialised)
  next
    case i: False
    show ?thesis
    proof (cases "pUDeviceCreateInstance env = NULL")
      case True
      with r i show ?thesis by (auto simp: add_no_device emit_def)
    next
      case d: False
      show ?thesis
      proof (cases "checkParameters cfg m tt th (gpUGnssPrivateInstanceList s)")
        case False
        with r i d show ?thesis by (auto simp: add_invalid emit_def)
      next
        case c: True
        show ?thesis
        proof (cases "malloc env = NULL")
          case True
          with r i d c show ?thesis by (auto simp: add_no_memory emit_def)
        next
          case a: False
          show ?thesis
          proof (cases "fst (uPortMutexCreate env) = 0")
            case False
            with r i d c a show ?thesis by (auto simp: add_mutex_failure emit_def)
          next
            case mc: True
            with False i c d a have "fst (gpioCalls cfg env pinArg l) \<noteq> 0"
              by (simp add: acquisitionsSucceed_def)
            with r i d c a mc show ?thesis by (auto simp: add_gpio_failure emit_def)
          qed
        qed
      qed
    qed
  qed
  with False r show ?thesis by simp
qed

lemma uGnssAdd_keeps_registry_ok:
  assumes "registry_ok (gpUGnssPrivateInstanceList s)"
    and "malloc env \<notin> self ` set (gpUGnssPrivateInstanceList s)"
    and "pUDeviceCreateInstance env \<notin> gnssHandle ` set (gpUGnssPrivateInstanceList s)"
  shows "registry_ok (gpUGnssPrivateInstanceList (snd (snd (uGnssAdd cfg env m tt th pinArg l s))))"
  using assms by (simp add: add_list registry_ok_new)

lemma uGnssRemove_keeps_registry_ok:
  assumes "registry_ok (gpUGnssPrivateInstanceList s)"
  shows "registry_ok (gpUGnssPrivateInstanceList (uGnssRemove h s))"
proof (cases "gUGnssPrivateMutex s = NULL")
  case True
  with assms show ?thesis by (simp add: uGnssRemove_def)
next
  case i: False
  show ?thesis
  proof (cases "pUGnssPrivateGetInstance h (gpUGnssPrivateInstanceList s)")
    case None
    with assms i show ?thesis by (simp add: remove_unknown emit_def)
  next
    case (Some inst)
    from assms have d: "distinct (map self (gpUGnssPrivateInstanceList s))"
      by (simp add: registry_ok_def)
    from assms show ?thesis
      by (simp add: remove_found [OF i d Some] registry_ok_remove1)
  qed
qed

lemma storeInstance_map:
  "map g (storeInstance p f xs) = map g xs" if "\<And>i. g (f i) = g i"
  using that by (induction xs) auto

lemma storeInstance_keeps_registry_ok:
  assumes "registry_ok xs"
    and "\<And>i. self (f i) = self i" and "\<And>i. gnssHandle (f i) = gnssHandle i"
    and "\<And>i. transportType (f i) = transportType i"
    and "\<And>i. transportHandle (f i) = transportHandle i"
  shows "registry_ok (storeInstance p f xs)"
proof -
  have b: "\<And>i. binding (f i) = binding i" by (simp add: binding_def assms)
  have fl: "map binding (filter (\<lambda>i. \<not> isI2c (transportType i)) (storeInstance p f xs))
            = map binding (filter (\<lambda>i. \<not> isI2c (transportType i)) xs)"
    by (induction xs) (auto simp: assms b)
  have la: "list_all (\<lambda>i. 0 < transportType i \<and> transportType i < 6) (storeInstance p f xs)
            = list_all (\<lambda>i. 0 < transportType i \<and> transportType i < 6) xs"
    by (induction xs) (auto simp: assms)
  from assms(1) show ?thesis
    by (simp add: registry_ok_def storeInstance_map assms fl la)
qed

subsection \<open>Initialisation, and the time-out\<close>

lemma uGnssInit_initialised:
  "gUGnssPrivateMutex s \<noteq> NULL \<Longrightarrow> uGnssInit mc s = (U_ERROR_COMMON_SUCCESS, s)"
  by (simp add: uGnssInit_def)

lemma uGnssInit_creates:
  "gUGnssPrivateMutex s = NULL \<Longrightarrow>
     uGnssInit (rc, mutex) s =
       (rc, s\<lparr>gUGnssPrivateMutex := mutex, effects := effects s @ [MutexCreate rc mutex]\<rparr>)"
  by (simp add: uGnssInit_def emit_def)

lemma setTimeout_then_get:
  assumes "gUGnssPrivateMutex s \<noteq> NULL"
    and "distinct (map self (gpUGnssPrivateInstanceList s))"
    and "pUGnssPrivateGetInstance h (gpUGnssPrivateInstanceList s) = Some inst"
  shows "fst (uGnssGetTimeout cfg h (uGnssSetTimeout h v s)) = v"
proof -
  have m: "inst \<in> set (gpUGnssPrivateInstanceList s)"
    using assms(3) by (simp add: lookup_Some)
  have "pUGnssPrivateGetInstance h
          (storeInstance (self inst) (\<lambda>i. i\<lparr>timeoutMs := v\<rparr>) (gpUGnssPrivateInstanceList s))
        = Some (inst\<lparr>timeoutMs := v\<rparr>)"
    by (rule store_member [OF m assms(2) _ assms(3)]) simp
  with assms(1,3) show ?thesis
    by (simp add: uGnssGetTimeout_def setters_setField setField_def Let_def emit_def store_def)
qed


section \<open>The claims\<close>

subsection \<open>C1: an add that fails after partial set-up\<close>

text \<open>
  Claim C1 says that a \<open>uGnssAdd\<close> which fails after partial set-up, a failure to set
  or configure the enable-power pin included, destroys what it created (mutex, instance
  memory, device instance), leaves the list unchanged, writes no handle and returns an
  error code. The code does this when the transport mutex cannot be created (lemma
  \<open>add_mutex_failure\<close>). When \<open>uPortGpioSet\<close> or \<open>uPortGpioConfig\<close> returns an error it
  deletes the mutex, frees the memory and leaves the list and the handle alone, but
  \<open>errorCodeOrHandle\<close> still holds the 0 of \<open>uPortMutexCreate\<close>: the device instance is
  not destroyed and the value returned is \<open>U_ERROR_COMMON_SUCCESS\<close> (lemma
  \<open>add_gpio_failure\<close>). The theorem is that run at a concrete call, on the empty
  registry \<open>s0\<close> with \<open>uPortGpioSet\<close> returning - 1: there is no
  \<open>DeviceDestroyInstance 100\<close> among the effects, and the result is 0.
\<close>

theorem uGnssAdd_gpio_failure_reports_success:
  "uGnssAdd cfg0 (env0\<lparr>uPortGpioSet := - 1\<rparr>) 0 U_GNSS_TRANSPORT_UBX_UART 7 5 False s0
     = (U_ERROR_COMMON_SUCCESS, None,
        s0\<lparr>effects := [DeviceCreateInstance 100, MutexLock 1, Malloc 200, MutexCreate 0 300,
                        GpioSet 5 0, MutexDelete 300, Free 200, MutexUnlock 1]\<rparr>)"
  by (simp add: add_defs eval_defs)

subsection \<open>C2: a transport that is already bound\<close>

text \<open>
  Claim C2, as amended. On an initialised registry with a live instance bound to a
  transport handle under some transport type:
  \<^item> when that type is not one of the two I2C types, a \<open>uGnssAdd\<close> with the same
    transport type and the same transport handle, once the device instance has been
    obtained, returns \<open>U_ERROR_COMMON_INVALID_PARAMETER\<close>, writes no handle and leaves
    the list and the registry mutex as they were;
  \<^item> when it is one of the two I2C types, the same \<open>uGnssAdd\<close> is not checked against
    the instances there are: with a module type of the table and all acquisitions
    succeeding it returns success and puts a second instance with that transport type
    and handle at the head of the list.
  The check compares the transport type itself, not its family.
\<close>

theorem uGnssAdd_duplicate_identity:
  assumes "gUGnssPrivateMutex s \<noteq> NULL"
    and "inst \<in> set (gpUGnssPrivateInstanceList s)"
  shows "(\<not> isI2c (transportType inst) \<and> pUDeviceCreateInstance env \<noteq> NULL \<longrightarrow>
            (\<exists>s'. uGnssAdd cfg env moduleType (transportType inst) (transportHandle inst)
                     pinArg leavePowerAlone s
                   = (U_ERROR_COMMON_INVALID_PARAMETER cfg, None, s')
                 \<and> gpUGnssPrivateInstanceList s' = gpUGnssPrivateInstanceList s
                 \<and> gUGnssPrivateMutex s' = gUGnssPrivateMutex s))
       \<and> (isI2c (transportType inst)
            \<and> size_t_of moduleType < gUGnssPrivateModuleListSize cfg
            \<and> acquisitionsSucceed cfg env pinArg leavePowerAlone \<longrightarrow>
            (\<exists>h new s'. uGnssAdd cfg env moduleType (transportType inst) (transportHandle inst)
                     pinArg leavePowerAlone s
                   = (U_ERROR_COMMON_SUCCESS, Some h, s')
                 \<and> gpUGnssPrivateInstanceList s' = new # gpUGnssPrivateInstanceList s
                 \<and> transportType new = transportType inst
                 \<and> transportHandle new = transportHandle inst))"
proof -
  have dup: "\<exists>s'. uGnssAdd cfg env moduleType (transportType inst) (transportHandle inst)
                     pinArg leavePowerAlone s
                   = (U_ERROR_COMMON_INVALID_PARAMETER cfg, None, s')
                 \<and> gpUGnssPrivateInstanceList s' = gpUGnssPrivateInstanceList s
                 \<and> gUGnssPrivateMutex s' = gUGnssPrivateMutex s"
    if n: "\<not> isI2c (transportType inst)" and d: "pUDeviceCreateInstance env \<noteq> NULL"
    using bound_check_fails [OF assms(2) n]
    by (simp add: add_invalid [OF assms(1) d] emit_def)
  have i2c: "\<exists>h new s'. uGnssAdd cfg env moduleType (transportType inst) (transportHandle inst)
                     pinArg leavePowerAlone s
                   = (U_ERROR_COMMON_SUCCESS, Some h, s')
                 \<and> gpUGnssPrivateInstanceList s' = new # gpUGnssPrivateInstanceList s
                 \<and> transportType new = transportType inst
                 \<and> transportHandle new = transportHandle inst"
    if i: "isI2c (transportType inst)"
      and m: "size_t_of moduleType < gUGnssPrivateModuleListSize cfg"
      and a: "acquisitionsSucceed cfg env pinArg leavePowerAlone"
  proof -
    from i have c: "checkParameters cfg moduleType (transportType inst) (transportHandle inst)
                      (gpUGnssPrivateInstanceList s)"
      using m by (auto simp: checkParameters_def isI2c_def)
    show ?thesis
      by (simp add: add_success [OF assms(1) c a] newInstance_def fillInstance_def)
  qed
  from dup i2c show ?thesis by blast
qed

text \<open>
  The theorem at \<open>s2\<close>, for its UART instance (the add is refused) and for its I2C
  instance (the add succeeds).
\<close>

theorem uGnssAdd_duplicate_identity_witness:
  "gUGnssPrivateMutex s2 \<noteq> NULL
   \<and> instance1 \<in> set (gpUGnssPrivateInstanceList s2)
   \<and> instance2 \<in> set (gpUGnssPrivateInstanceList s2)
   \<and> \<not> isI2c (transportType instance1) \<and> isI2c (transportType instance2)
   \<and> (\<exists>s'. uGnssAdd cfg0 env2 0 U_GNSS_TRANSPORT_UBX_UART 7 5 False s2 = (- 5, None, s')
          \<and> gpUGnssPrivateInstanceList s' = gpUGnssPrivateInstanceList s2)
   \<and> (\<exists>h new s'. uGnssAdd cfg0 env2 0 U_GNSS_TRANSPORT_UBX_I2C 3 5 False s2 = (0, Some h, s')
          \<and> gpUGnssPrivateInstanceList s' = new # gpUGnssPrivateInstanceList s2
          \<and> transportType new = U_GNSS_TRANSPORT_UBX_I2C \<and> transportHandle new = 3)"
proof -
  have a: "gUGnssPrivateMutex s2 \<noteq> NULL" by (simp add: s2_def)
  have b1: "instance1 \<in> set (gpUGnssPrivateInstanceList s2)" by (simp add: s2_def)
  have b2: "instance2 \<in> set (gpUGnssPrivateInstanceList s2)" by (simp add: s2_def)
  have c1: "\<not> isI2c (transportType instance1)" by (simp add: isI2c_def instance1_def)
  have c2: "isI2c (transportType instance2)" by (simp add: isI2c_def instance2_def)
  have d: "pUDeviceCreateInstance env2 \<noteq> NULL" by (simp add: env2_def)
  have e: "size_t_of 0 < gUGnssPrivateModuleListSize cfg0" by (simp add: size_t_of_def cfg0_def)
  have f: "acquisitionsSucceed cfg0 env2 5 False"
    by (simp add: acquisitionsSucceed_def gpioCalls_def eval_defs)
  have t1: "transportType instance1 = U_GNSS_TRANSPORT_UBX_UART \<and> transportHandle instance1 = 7"
    by (simp add: instance1_def)
  have t2: "transportType instance2 = U_GNSS_TRANSPORT_UBX_I2C \<and> transportHandle instance2 = 3"
    by (simp add: instance2_def)
  have i: "U_ERROR_COMMON_INVALID_PARAMETER cfg0 = - 5" by (simp add: cfg0_def)
  have r1: "\<exists>s'. uGnssAdd cfg0 env2 0 U_GNSS_TRANSPORT_UBX_UART 7 5 False s2 = (- 5, None, s')
          \<and> gpUGnssPrivateInstanceList s' = gpUGnssPrivateInstanceList s2"
    using c1 d uGnssAdd_duplicate_identity [OF a b1, of env2 cfg0 0 5 False]
    by (simp add: t1 i) blast
  have r2: "\<exists>h new s'. uGnssAdd cfg0 env2 0 U_GNSS_TRANSPORT_UBX_I2C 3 5 False s2 = (0, Some h, s')
          \<and> gpUGnssPrivateInstanceList s' = new # gpUGnssPrivateInstanceList s2
          \<and> transportType new = U_GNSS_TRANSPORT_UBX_I2C \<and> transportHandle new = 3"
    using c2 e f uGnssAdd_duplicate_identity [OF a b2, of env2 cfg0 0 5 False]
    by (simp add: t2)
  from a b1 b2 c1 c2 r1 r2 show ?thesis by blast
qed

text \<open>
  The claim as stated (an add of the same transport family with the same identity is
  refused with an invalid-argument error, and on I2C it succeeds) fails: \<open>s1\<close> holds an
  instance of type \<open>U_GNSS_TRANSPORT_UBX_UART\<close> on UART 7, and an add of type
  \<open>U_GNSS_TRANSPORT_NMEA_UART\<close> on UART 7 succeeds, after which the list holds both.
  Besides, an add of the same type on UART 7 for which no device instance can be
  created returns \<open>U_ERROR_COMMON_NO_MEMORY\<close>, not the invalid-argument error, and an add
  on the I2C bus 3 that \<open>s2\<close> has bound fails when \<open>malloc\<close> returns \<open>NULL\<close>.
\<close>

theorem uGnssAdd_same_uart_other_protocol:
  "instance1 \<in> set (gpUGnssPrivateInstanceList s1)
   \<and> transportType instance1 = U_GNSS_TRANSPORT_UBX_UART \<and> uart (transportHandle instance1) = 7
   \<and> fst (uGnssAdd cfg0 env1 0 U_GNSS_TRANSPORT_NMEA_UART 7 (- 1) False s1)
       = U_ERROR_COMMON_SUCCESS
   \<and> map binding (gpUGnssPrivateInstanceList
        (snd (snd (uGnssAdd cfg0 env1 0 U_GNSS_TRANSPORT_NMEA_UART 7 (- 1) False s1))))
       = [(U_GNSS_TRANSPORT_NMEA_UART, 7), (U_GNSS_TRANSPORT_UBX_UART, 7)]
   \<and> fst (uGnssAdd cfg0 (env1\<lparr>pUDeviceCreateInstance := NULL\<rparr>) 0 U_GNSS_TRANSPORT_UBX_UART 7
             (- 1) False s1)
       = U_ERROR_COMMON_NO_MEMORY cfg0
   \<and> U_ERROR_COMMON_NO_MEMORY cfg0 \<noteq> U_ERROR_COMMON_INVALID_PARAMETER cfg0
   \<and> instance2 \<in> set (gpUGnssPrivateInstanceList s2)
   \<and> transportType instance2 = U_GNSS_TRANSPORT_UBX_I2C \<and> i2c (transportHandle instance2) = 3
   \<and> fst (uGnssAdd cfg0 (env2\<lparr>malloc := NULL\<rparr>) 0 U_GNSS_TRANSPORT_UBX_I2C 3 (- 1) False s2)
       = U_ERROR_COMMON_NO_MEMORY cfg0"
  by (simp add: add_defs eval_defs binding_def)

subsection \<open>C3: a valid add succeeds and its handle finds the instance\<close>

text \<open>
  Claim C3, as amended. On an initialised registry, for a module type within the module
  table, a transport type strictly between \<open>U_GNSS_TRANSPORT_NONE\<close> and
  \<open>U_GNSS_TRANSPORT_MAX_NUM\<close> and a transport handle that no instance of the same
  transport type holds (or any handle, for the two I2C types), \<open>uGnssAdd\<close> whose
  acquisitions all succeed (device instance, memory, transport mutex, and no error from
  the set-up of the enable-power pin) returns success, puts the new instance at the
  head of the list in front of the instances that were there, leaves the registry mutex
  as it was, and writes a handle whose look-up in the new list gives that instance.
\<close>

theorem uGnssAdd_succeeds_and_is_found:
  assumes "gUGnssPrivateMutex s \<noteq> NULL"
    and "size_t_of moduleType < gUGnssPrivateModuleListSize cfg"
    and "U_GNSS_TRANSPORT_NONE < tt" and "tt < U_GNSS_TRANSPORT_MAX_NUM"
    and "isI2c tt \<or> (tt, th) \<notin> binding ` set (gpUGnssPrivateInstanceList s)"
    and "acquisitionsSucceed cfg env pinArg leavePowerAlone"
  shows "\<exists>h inst s'.
           uGnssAdd cfg env moduleType tt th pinArg leavePowerAlone s
             = (U_ERROR_COMMON_SUCCESS, Some h, s')
         \<and> gpUGnssPrivateInstanceList s' = inst # gpUGnssPrivateInstanceList s
         \<and> gUGnssPrivateMutex s' = gUGnssPrivateMutex s
         \<and> transportType inst = tt \<and> transportHandle inst = th
         \<and> pUGnssPrivateGetInstance h (gpUGnssPrivateInstanceList s') = Some inst"
proof -
  have c: "checkParameters cfg moduleType tt th (gpUGnssPrivateInstanceList s)"
    by (rule not_bound_check [OF assms(2-5)])
  let ?inst = "newInstance cfg env moduleType tt th pinArg"
  have "transportType ?inst = tt \<and> transportHandle ?inst = th"
    by (simp add: newInstance_def fillInstance_def)
  then show ?thesis
    by (simp add: add_success [OF assms(1) c assms(6)])
qed

text \<open>The theorem at \<open>s1\<close>: a second instance, on an AT transport, with an inverted pin 5.\<close>

theorem uGnssAdd_succeeds_and_is_found_witness:
  "gUGnssPrivateMutex s1 \<noteq> NULL
   \<and> size_t_of 1 < gUGnssPrivateModuleListSize cfg0
   \<and> (U_GNSS_TRANSPORT_UBX_AT, 7) \<notin> binding ` set (gpUGnssPrivateInstanceList s1)
   \<and> acquisitionsSucceed cfg0 env1 133 False
   \<and> (\<exists>h inst s'.
          uGnssAdd cfg0 env1 1 U_GNSS_TRANSPORT_UBX_AT 7 133 False s1
            = (U_ERROR_COMMON_SUCCESS, Some h, s')
        \<and> gpUGnssPrivateInstanceList s' = inst # gpUGnssPrivateInstanceList s1
        \<and> gUGnssPrivateMutex s' = gUGnssPrivateMutex s1
        \<and> transportType inst = U_GNSS_TRANSPORT_UBX_AT \<and> transportHandle inst = 7
        \<and> pUGnssPrivateGetInstance h (gpUGnssPrivateInstanceList s') = Some inst)"
proof -
  have a: "gUGnssPrivateMutex s1 \<noteq> NULL" by (simp add: s1_def)
  have b: "size_t_of 1 < gUGnssPrivateModuleListSize cfg0" by (simp add: size_t_of_def cfg0_def)
  have c: "isI2c U_GNSS_TRANSPORT_UBX_AT
           \<or> (U_GNSS_TRANSPORT_UBX_AT, 7) \<notin> binding ` set (gpUGnssPrivateInstanceList s1)"
    by (simp add: s1_def instance1_def binding_def)
  have d: "acquisitionsSucceed cfg0 env1 133 False"
    by (simp add: acquisitionsSucceed_def gpioCalls_def eval_defs)
  have e: "(U_GNSS_TRANSPORT_NONE::int) < U_GNSS_TRANSPORT_UBX_AT" by simp
  have f: "(U_GNSS_TRANSPORT_UBX_AT::int) < U_GNSS_TRANSPORT_MAX_NUM" by simp
  from c have c': "(U_GNSS_TRANSPORT_UBX_AT, 7) \<notin> binding ` set (gpUGnssPrivateInstanceList s1)"
    by (simp add: isI2c_def)
  show ?thesis
    using a b c' d uGnssAdd_succeeds_and_is_found [OF a b e f c d] by blast
qed

text \<open>
  The claim as stated (every add with valid arguments succeeds) fails when \<open>malloc\<close>
  returns \<open>NULL\<close>: the arguments are valid, the registry is initialised and empty, and
  \<open>uGnssAdd\<close> returns \<open>U_ERROR_COMMON_NO_MEMORY\<close> with nothing added.
\<close>

theorem uGnssAdd_out_of_memory:
  "gUGnssPrivateMutex s0 \<noteq> NULL
   \<and> size_t_of 0 < gUGnssPrivateModuleListSize cfg0
   \<and> gpUGnssPrivateInstanceList s0 = []
   \<and> uGnssAdd cfg0 (env0\<lparr>malloc := NULL\<rparr>) 0 U_GNSS_TRANSPORT_UBX_UART 7 5 False s0
       = (- 6, None,
          s0\<lparr>effects := [DeviceCreateInstance 100, MutexLock 1, Malloc NULL,
                          DeviceDestroyInstance 100, MutexUnlock 1]\<rparr>)"
  by (simp add: add_defs eval_defs)

subsection \<open>C4: removing an instance\<close>

text \<open>
  Claim C4, as amended. On an initialised registry whose list is as the API builds it
  (\<open>registry_ok\<close>):
  \<^item> \<open>uGnssRemove\<close> of a handle the look-up does not find takes and releases the
    registry mutex and does nothing else;
  \<^item> \<open>uGnssRemove\<close> of a handle the look-up finds stops the position task of that
    instance, deletes its transport mutex, destroys its device instance, unlinks it
    from the list and frees it, in that order and under the registry mutex; the list
    is then the old one without that instance, the look-up of the handle fails, and a
    \<open>uGnssAdd\<close> with the transport type and transport handle of the removed instance
    is not refused: with a module type of the table and all its acquisitions
    succeeding it returns success and hands out a handle.
\<close>

theorem uGnssRemove_teardown:
  assumes "gUGnssPrivateMutex s \<noteq> NULL"
    and "registry_ok (gpUGnssPrivateInstanceList s)"
  shows "(pUGnssPrivateGetInstance h (gpUGnssPrivateInstanceList s) = None \<longrightarrow>
            uGnssRemove h s =
              emit [MutexLock (gUGnssPrivateMutex s), MutexUnlock (gUGnssPrivateMutex s)] s)
       \<and> (\<forall>inst. pUGnssPrivateGetInstance h (gpUGnssPrivateInstanceList s) = Some inst \<longrightarrow>
            effects (uGnssRemove h s) =
              effects s
              @ [MutexLock (gUGnssPrivateMutex s),
                 CleanUpPosTask (self inst), MutexDelete (transportMutex inst),
                 DeviceDestroyInstance (gnssHandle inst), Unlink (self inst), Free (self inst),
                 MutexUnlock (gUGnssPrivateMutex s)]
          \<and> gpUGnssPrivateInstanceList (uGnssRemove h s)
              = remove1 inst (gpUGnssPrivateInstanceList s)
          \<and> gUGnssPrivateMutex (uGnssRemove h s) = gUGnssPrivateMutex s
          \<and> pUGnssPrivateGetInstance h (gpUGnssPrivateInstanceList (uGnssRemove h s)) = None
          \<and> (\<forall>cfg env moduleType pinArg leavePowerAlone.
                size_t_of moduleType < gUGnssPrivateModuleListSize cfg
                \<and> acquisitionsSucceed cfg env pinArg leavePowerAlone \<longrightarrow>
                fst (uGnssAdd cfg env moduleType (transportType inst) (transportHandle inst)
                       pinArg leavePowerAlone (uGnssRemove h s))
                  = U_ERROR_COMMON_SUCCESS
                \<and> fst (snd (uGnssAdd cfg env moduleType (transportType inst)
                       (transportHandle inst) pinArg leavePowerAlone (uGnssRemove h s)))
                  = Some (pUDeviceCreateInstance env)))"
proof (intro conjI allI impI)
  assume "pUGnssPrivateGetInstance h (gpUGnssPrivateInstanceList s) = None"
  then show "uGnssRemove h s =
      emit [MutexLock (gUGnssPrivateMutex s), MutexUnlock (gUGnssPrivateMutex s)] s"
    by (rule remove_unknown [OF assms(1)])
next
  fix inst
  assume f: "pUGnssPrivateGetInstance h (gpUGnssPrivateInstanceList s) = Some inst"
  have d: "distinct (map self (gpUGnssPrivateInstanceList s))"
    and dh: "distinct (map gnssHandle (gpUGnssPrivateInstanceList s))"
    using assms(2) by (simp_all add: registry_ok_def)
  note r = remove_found [OF assms(1) d f]
  show "effects (uGnssRemove h s) =
              effects s
              @ [MutexLock (gUGnssPrivateMutex s),
                 CleanUpPosTask (self inst), MutexDelete (transportMutex inst),
                 DeviceDestroyInstance (gnssHandle inst), Unlink (self inst), Free (self inst),
                 MutexUnlock (gUGnssPrivateMutex s)]"
    by (simp add: r teardown_def)
  show l: "gpUGnssPrivateInstanceList (uGnssRemove h s)
              = remove1 inst (gpUGnssPrivateInstanceList s)"
    by (simp add: r)
  show mx: "gUGnssPrivateMutex (uGnssRemove h s) = gUGnssPrivateMutex s"
    by (simp add: r)
  show "pUGnssPrivateGetInstance h (gpUGnssPrivateInstanceList (uGnssRemove h s)) = None"
    unfolding l by (rule lookup_remove1 [OF f dh])
  fix cfg env moduleType pinArg leavePowerAlone
  assume a: "size_t_of moduleType < gUGnssPrivateModuleListSize cfg
                \<and> acquisitionsSucceed cfg env pinArg leavePowerAlone"
  have m: "inst \<in> set (gpUGnssPrivateInstanceList s)"
    using f by (simp add: lookup_Some)
  have v: "U_GNSS_TRANSPORT_NONE < transportType inst
           \<and> transportType inst < U_GNSS_TRANSPORT_MAX_NUM"
    using assms(2) m by (auto simp: registry_ok_def list_all_iff)
  have "isI2c (transportType inst)
        \<or> pGetGnssInstanceTransportHandle (transportType inst) (transportHandle inst)
             (remove1 inst (gpUGnssPrivateInstanceList s)) = None"
    by (cases "isI2c (transportType inst)") (simp_all add: pGet_remove1 [OF m assms(2)])
  then have c: "checkParameters cfg moduleType (transportType inst) (transportHandle inst)
                  (gpUGnssPrivateInstanceList (uGnssRemove h s))"
    using a v unfolding l by (auto simp: checkParameters_def isI2c_def)
  have i: "gUGnssPrivateMutex (uGnssRemove h s) \<noteq> NULL"
    using assms(1) by (simp add: mx)
  from a have a': "acquisitionsSucceed cfg env pinArg leavePowerAlone" by simp
  show "fst (uGnssAdd cfg env moduleType (transportType inst) (transportHandle inst)
                       pinArg leavePowerAlone (uGnssRemove h s))
                  = U_ERROR_COMMON_SUCCESS"
    by (simp add: add_success [OF i c a'])
  show "fst (snd (uGnssAdd cfg env moduleType (transportType inst)
                       (transportHandle inst) pinArg leavePowerAlone (uGnssRemove h s)))
                  = Some (pUDeviceCreateInstance env)"
    by (simp add: add_success [OF i c a'])
qed

text \<open>
  The theorem at \<open>s2\<close>: for the handle 9, which no instance has, and for the handle
  100 of the UART instance, followed by a new add on UART 7.
\<close>

theorem uGnssRemove_teardown_witness:
  "gUGnssPrivateMutex s2 \<noteq> NULL \<and> registry_ok (gpUGnssPrivateInstanceList s2)
   \<and> pUGnssPrivateGetInstance 9 (gpUGnssPrivateInstanceList s2) = None
   \<and> uGnssRemove 9 s2 = s2\<lparr>effects := [MutexLock 1, MutexUnlock 1]\<rparr>
   \<and> pUGnssPrivateGetInstance 100 (gpUGnssPrivateInstanceList s2) = Some instance1
   \<and> effects (uGnssRemove 100 s2) =
        [MutexLock 1, CleanUpPosTask 200, MutexDelete 300, DeviceDestroyInstance 100,
         Unlink 200, Free 200, MutexUnlock 1]
   \<and> gpUGnssPrivateInstanceList (uGnssRemove 100 s2) = [instance2]
   \<and> pUGnssPrivateGetInstance 100 (gpUGnssPrivateInstanceList (uGnssRemove 100 s2)) = None
   \<and> fst (uGnssAdd cfg0 env2 0 U_GNSS_TRANSPORT_UBX_UART 7 5 False (uGnssRemove 100 s2)) = 0"
proof -
  have a: "gUGnssPrivateMutex s2 \<noteq> NULL" by (simp add: s2_def)
  note b = registry_ok_s2
  have n: "pUGnssPrivateGetInstance 9 (gpUGnssPrivateInstanceList s2) = None"
    by (simp add: s2_def instance1_def instance2_def)
  have f: "pUGnssPrivateGetInstance 100 (gpUGnssPrivateInstanceList s2) = Some instance1"
    by (simp add: s2_def instance1_def instance2_def)
  have e: "size_t_of 0 < gUGnssPrivateModuleListSize cfg0
           \<and> acquisitionsSucceed cfg0 env2 5 False"
    by (simp add: acquisitionsSucceed_def gpioCalls_def eval_defs)
  have t: "transportType instance1 = U_GNSS_TRANSPORT_UBX_UART \<and> transportHandle instance1 = 7
           \<and> self instance1 = 200 \<and> transportMutex instance1 = 300
           \<and> gnssHandle instance1 = 100"
    by (simp add: instance1_def)
  have r: "remove1 instance1 (gpUGnssPrivateInstanceList s2) = [instance2]"
    by (simp add: s2_def instance1_def instance2_def)
  have u: "uGnssRemove 9 s2 = s2\<lparr>effects := [MutexLock 1, MutexUnlock 1]\<rparr>"
    using n uGnssRemove_teardown [OF a b, of 9] by (simp add: emit_def s2_def)
  note found = uGnssRemove_teardown [OF a b, of 100, THEN conjunct2, THEN spec, THEN mp, OF f]
  have g1: "effects (uGnssRemove 100 s2) =
        [MutexLock 1, CleanUpPosTask 200, MutexDelete 300, DeviceDestroyInstance 100,
         Unlink 200, Free 200, MutexUnlock 1]"
    using found [THEN conjunct1] by (simp add: t) (simp add: s2_def)
  have g2: "gpUGnssPrivateInstanceList (uGnssRemove 100 s2) = [instance2]"
    using found [THEN conjunct2, THEN conjunct1] by (simp add: r)
  have g3: "pUGnssPrivateGetInstance 100 (gpUGnssPrivateInstanceList (uGnssRemove 100 s2)) = None"
    using found [THEN conjunct2, THEN conjunct2, THEN conjunct2, THEN conjunct1] .
  have g4: "fst (uGnssAdd cfg0 env2 0 U_GNSS_TRANSPORT_UBX_UART 7 5 False (uGnssRemove 100 s2)) = 0"
    using e found [THEN conjunct2, THEN conjunct2, THEN conjunct2, THEN conjunct2,
                   THEN spec, THEN spec, THEN spec, THEN spec, THEN spec, THEN mp, OF e]
    by (simp add: t)
  note g = g1 g2 g3 g4
  from a b n u f g show ?thesis by blast
qed

text \<open>
  The claim as stated (after the removal a new add with the same transport identity
  succeeds) fails when the new add cannot get memory: after \<open>uGnssRemove\<close> has
  emptied \<open>s1\<close>, a \<open>uGnssAdd\<close> on the same UART with \<open>malloc\<close> returning \<open>NULL\<close>
  returns \<open>U_ERROR_COMMON_NO_MEMORY\<close>.
\<close>

theorem uGnssRemove_then_add_out_of_memory:
  "gUGnssPrivateMutex s1 \<noteq> NULL
   \<and> pUGnssPrivateGetInstance 100 (gpUGnssPrivateInstanceList s1) = Some instance1
   \<and> gpUGnssPrivateInstanceList (uGnssRemove 100 s1) = []
   \<and> fst (uGnssAdd cfg0 (env1\<lparr>malloc := NULL\<rparr>) 0 (transportType instance1)
             (transportHandle instance1) 5 False (uGnssRemove 100 s1)) = - 6"
  by (simp add: uGnssRemove_def deleteGnssInstance_def add_defs eval_defs)

subsection \<open>C5: setting and getting the I2C address\<close>

text \<open>
  Claim C5, as amended. On an initialised registry, for a live instance found by the
  handle and holding the I2C address \<open>a\<close>: \<open>uGnssSetI2cAddress\<close> with a value \<open>v \<le> 0\<close>
  returns \<open>U_ERROR_COMMON_INVALID_PARAMETER\<close>, leaves the list as it was, and
  \<open>uGnssGetI2cAddress\<close> still returns \<open>a\<close>; with \<open>v > 0\<close> it returns success and
  \<open>uGnssGetI2cAddress\<close> then returns \<open>v\<close> reduced to the 16 bits of the field
  \<open>i2cAddress\<close>, which is \<open>v\<close> itself when \<open>v < 65536\<close>.
\<close>

theorem uGnssSetI2cAddress_then_get:
  assumes "gUGnssPrivateMutex s \<noteq> NULL"
    and "distinct (map self (gpUGnssPrivateInstanceList s))"
    and "pUGnssPrivateGetInstance h (gpUGnssPrivateInstanceList s) = Some inst"
  shows "(v \<le> 0 \<longrightarrow>
            fst (uGnssSetI2cAddress cfg h v s) = U_ERROR_COMMON_INVALID_PARAMETER cfg
          \<and> gpUGnssPrivateInstanceList (snd (uGnssSetI2cAddress cfg h v s))
              = gpUGnssPrivateInstanceList s
          \<and> fst (uGnssGetI2cAddress cfg h (snd (uGnssSetI2cAddress cfg h v s)))
              = i2cAddress inst)
       \<and> (0 < v \<longrightarrow>
            fst (uGnssSetI2cAddress cfg h v s) = U_ERROR_COMMON_SUCCESS
          \<and> fst (uGnssGetI2cAddress cfg h (snd (uGnssSetI2cAddress cfg h v s)))
              = v mod 2 ^ 16)
       \<and> (0 < v \<and> v < 2 ^ 16 \<longrightarrow>
            fst (uGnssGetI2cAddress cfg h (snd (uGnssSetI2cAddress cfg h v s))) = v)"
proof -
  have m: "inst \<in> set (gpUGnssPrivateInstanceList s)"
    using assms(3) by (simp add: lookup_Some)
  have after: "pUGnssPrivateGetInstance h
                 (storeInstance (self inst) (\<lambda>i. i\<lparr>i2cAddress := v mod 2 ^ 16\<rparr>)
                    (gpUGnssPrivateInstanceList s))
               = Some (inst\<lparr>i2cAddress := v mod 2 ^ 16\<rparr>)"
    by (rule store_member [OF m assms(2) _ assms(3)]) simp
  have rejected: "v \<le> 0 \<longrightarrow>
            fst (uGnssSetI2cAddress cfg h v s) = U_ERROR_COMMON_INVALID_PARAMETER cfg
          \<and> gpUGnssPrivateInstanceList (snd (uGnssSetI2cAddress cfg h v s))
              = gpUGnssPrivateInstanceList s
          \<and> fst (uGnssGetI2cAddress cfg h (snd (uGnssSetI2cAddress cfg h v s)))
              = i2cAddress inst"
    using assms(1,3) by (simp add: setI2c_found [OF assms(1,3)] getI2c_fst emit_def)
  have accepted: "0 < v \<longrightarrow>
            fst (uGnssSetI2cAddress cfg h v s) = U_ERROR_COMMON_SUCCESS
          \<and> fst (uGnssGetI2cAddress cfg h (snd (uGnssSetI2cAddress cfg h v s)))
              = v mod 2 ^ 16"
    using assms(1) after
    by (simp add: setI2c_found [OF assms(1,3)] getI2c_fst emit_def store_def)
  have "v mod 2 ^ 16 = v" if "0 < v" "v < 2 ^ 16"
    using that by simp
  with accepted have narrow: "0 < v \<and> v < 2 ^ 16 \<longrightarrow>
            fst (uGnssGetI2cAddress cfg h (snd (uGnssSetI2cAddress cfg h v s))) = v"
    by metis
  from rejected accepted narrow show ?thesis by blast
qed

text \<open>The theorem at the state \<open>s1\<close>, for the values 0 and 16.\<close>

theorem uGnssSetI2cAddress_then_get_witness:
  "gUGnssPrivateMutex s1 \<noteq> NULL
   \<and> distinct (map self (gpUGnssPrivateInstanceList s1))
   \<and> pUGnssPrivateGetInstance 100 (gpUGnssPrivateInstanceList s1) = Some instance1
   \<and> fst (uGnssSetI2cAddress cfg0 100 0 s1) = - 5
   \<and> fst (uGnssGetI2cAddress cfg0 100 (snd (uGnssSetI2cAddress cfg0 100 0 s1))) = 66
   \<and> fst (uGnssSetI2cAddress cfg0 100 16 s1) = 0
   \<and> fst (uGnssGetI2cAddress cfg0 100 (snd (uGnssSetI2cAddress cfg0 100 16 s1))) = 16"
proof -
  have a: "gUGnssPrivateMutex s1 \<noteq> NULL" by (simp add: s1_def)
  have b: "distinct (map self (gpUGnssPrivateInstanceList s1))" by (simp add: s1_def)
  have c: "pUGnssPrivateGetInstance 100 (gpUGnssPrivateInstanceList s1) = Some instance1"
    by (simp add: s1_def instance1_def)
  show ?thesis
    using a b c uGnssSetI2cAddress_then_get [OF a b c, of 0 cfg0]
      uGnssSetI2cAddress_then_get [OF a b c, of 16 cfg0]
    by (simp add: cfg0_def instance1_def)
qed

text \<open>
  The claim as stated (a get after setting any \<open>v > 0\<close> returns \<open>v\<close>) fails at
  \<open>v = 65552\<close>, which is \<open>0x10010\<close>: the set succeeds and the get returns 16.
\<close>

theorem uGnssSetI2cAddress_wide_value_truncated:
  "pUGnssPrivateGetInstance 100 (gpUGnssPrivateInstanceList s1) = Some instance1
   \<and> fst (uGnssSetI2cAddress cfg0 100 65552 s1) = U_ERROR_COMMON_SUCCESS
   \<and> fst (uGnssGetI2cAddress cfg0 100 (snd (uGnssSetI2cAddress cfg0 100 65552 s1))) = 16"
  by (simp add: uGnssSetI2cAddress_def uGnssGetI2cAddress_def Let_def emit_def eval_defs)

subsection \<open>C6: a handle that identifies no instance\<close>

text \<open>
  Claim C6, as amended. For a handle that the look-up does not find, whatever the state
  of the registry: each of the four \<open>void\<close> setters (\<open>uGnssSetTimeout\<close>,
  \<open>uGnssSetAtPinPwr\<close>, \<open>uGnssSetAtPinDataReady\<close>, \<open>uGnssSetUbxMessagePrint\<close>) leaves the
  list, and so every field of every instance, and the registry mutex as they were;
  \<open>uGnssGetTimeout\<close>, \<open>uGnssGetI2cAddress\<close> and \<open>uGnssGetTransportHandle\<close> return
  \<open>U_ERROR_COMMON_INVALID_PARAMETER\<close> when the registry is initialised and
  \<open>U_ERROR_COMMON_NOT_INITIALISED\<close> when it is not, the last writing neither of its
  outputs; and \<open>uGnssGetUbxMessagePrint\<close>, which returns a \<open>bool\<close>, returns \<open>false\<close>.
\<close>

theorem unknown_handle:
  assumes "pUGnssPrivateGetInstance h (gpUGnssPrivateInstanceList s) = None"
  shows "gpUGnssPrivateInstanceList (uGnssSetTimeout h v s) = gpUGnssPrivateInstanceList s
       \<and> gUGnssPrivateMutex (uGnssSetTimeout h v s) = gUGnssPrivateMutex s
       \<and> gpUGnssPrivateInstanceList (uGnssSetAtPinPwr h v s) = gpUGnssPrivateInstanceList s
       \<and> gUGnssPrivateMutex (uGnssSetAtPinPwr h v s) = gUGnssPrivateMutex s
       \<and> gpUGnssPrivateInstanceList (uGnssSetAtPinDataReady h v s) = gpUGnssPrivateInstanceList s
       \<and> gUGnssPrivateMutex (uGnssSetAtPinDataReady h v s) = gUGnssPrivateMutex s
       \<and> gpUGnssPrivateInstanceList (uGnssSetUbxMessagePrint h b s) = gpUGnssPrivateInstanceList s
       \<and> gUGnssPrivateMutex (uGnssSetUbxMessagePrint h b s) = gUGnssPrivateMutex s
       \<and> fst (uGnssGetTimeout cfg h s) =
           (if gUGnssPrivateMutex s \<noteq> NULL then U_ERROR_COMMON_INVALID_PARAMETER cfg
            else U_ERROR_COMMON_NOT_INITIALISED cfg)
       \<and> fst (uGnssGetI2cAddress cfg h s) =
           (if gUGnssPrivateMutex s \<noteq> NULL then U_ERROR_COMMON_INVALID_PARAMETER cfg
            else U_ERROR_COMMON_NOT_INITIALISED cfg)
       \<and> fst (uGnssGetTransportHandle cfg h pTransportType pTransportHandle s) =
           (if gUGnssPrivateMutex s \<noteq> NULL then U_ERROR_COMMON_INVALID_PARAMETER cfg
            else U_ERROR_COMMON_NOT_INITIALISED cfg)
       \<and> fst (snd (uGnssGetTransportHandle cfg h pTransportType pTransportHandle s)) = None
       \<and> fst (snd (snd (uGnssGetTransportHandle cfg h pTransportType pTransportHandle s))) = None
       \<and> fst (uGnssGetUbxMessagePrint h s) = False"
proof -
  note r = setField_unknown_registry [OF assms]
  have setters:
    "gpUGnssPrivateInstanceList (uGnssSetTimeout h v s) = gpUGnssPrivateInstanceList s
       \<and> gUGnssPrivateMutex (uGnssSetTimeout h v s) = gUGnssPrivateMutex s
       \<and> gpUGnssPrivateInstanceList (uGnssSetAtPinPwr h v s) = gpUGnssPrivateInstanceList s
       \<and> gUGnssPrivateMutex (uGnssSetAtPinPwr h v s) = gUGnssPrivateMutex s
       \<and> gpUGnssPrivateInstanceList (uGnssSetAtPinDataReady h v s) = gpUGnssPrivateInstanceList s
       \<and> gUGnssPrivateMutex (uGnssSetAtPinDataReady h v s) = gUGnssPrivateMutex s
       \<and> gpUGnssPrivateInstanceList (uGnssSetUbxMessagePrint h b s) = gpUGnssPrivateInstanceList s
       \<and> gUGnssPrivateMutex (uGnssSetUbxMessagePrint h b s) = gUGnssPrivateMutex s"
    by (simp add: setters_setField r)
  have getters:
    "fst (uGnssGetTimeout cfg h s) =
           (if gUGnssPrivateMutex s \<noteq> NULL then U_ERROR_COMMON_INVALID_PARAMETER cfg
            else U_ERROR_COMMON_NOT_INITIALISED cfg)
       \<and> fst (uGnssGetI2cAddress cfg h s) =
           (if gUGnssPrivateMutex s \<noteq> NULL then U_ERROR_COMMON_INVALID_PARAMETER cfg
            else U_ERROR_COMMON_NOT_INITIALISED cfg)
       \<and> fst (uGnssGetTransportHandle cfg h pTransportType pTransportHandle s) =
           (if gUGnssPrivateMutex s \<noteq> NULL then U_ERROR_COMMON_INVALID_PARAMETER cfg
            else U_ERROR_COMMON_NOT_INITIALISED cfg)
       \<and> fst (snd (uGnssGetTransportHandle cfg h pTransportType pTransportHandle s)) = None
       \<and> fst (snd (snd (uGnssGetTransportHandle cfg h pTransportType pTransportHandle s))) = None
       \<and> fst (uGnssGetUbxMessagePrint h s) = False"
    using assms
    by (simp add: uGnssGetTimeout_def uGnssGetI2cAddress_def uGnssGetTransportHandle_def
        uGnssGetUbxMessagePrint_def Let_def emit_def)
  from setters getters show ?thesis by (intro conjI) blast+
qed

text \<open>The theorem at \<open>s2\<close>, whose instances have the handles 101 and 100, for the handle 9.\<close>

theorem unknown_handle_witness:
  "pUGnssPrivateGetInstance 9 (gpUGnssPrivateInstanceList s2) = None
   \<and> gpUGnssPrivateInstanceList (uGnssSetTimeout 9 2000 s2) = [instance2, instance1]
   \<and> gpUGnssPrivateInstanceList (uGnssSetAtPinPwr 9 2000 s2) = [instance2, instance1]
   \<and> gpUGnssPrivateInstanceList (uGnssSetAtPinDataReady 9 2000 s2) = [instance2, instance1]
   \<and> gpUGnssPrivateInstanceList (uGnssSetUbxMessagePrint 9 True s2) = [instance2, instance1]
   \<and> fst (uGnssGetTimeout cfg0 9 s2) = - 5
   \<and> fst (uGnssGetI2cAddress cfg0 9 s2) = - 5
   \<and> fst (uGnssGetTransportHandle cfg0 9 True True s2) = - 5
   \<and> fst (uGnssGetUbxMessagePrint 9 s2) = False"
proof -
  have a: "pUGnssPrivateGetInstance 9 (gpUGnssPrivateInstanceList s2) = None"
    by (simp add: s2_def instance1_def instance2_def)
  have l: "gpUGnssPrivateInstanceList s2 = [instance2, instance1]" by (simp add: s2_def)
  have m: "gUGnssPrivateMutex s2 \<noteq> NULL" by (simp add: s2_def)
  have i: "U_ERROR_COMMON_INVALID_PARAMETER cfg0 = - 5" by (simp add: cfg0_def)
  show ?thesis
    using a unknown_handle [OF a, of 2000 True cfg0 True True]
    by (simp add: l m i)
qed

text \<open>
  The claim as stated (every value-returning accessor returns an invalid-argument
  error) fails in two ways: on the initialised empty registry \<open>s0\<close>
  \<open>uGnssGetUbxMessagePrint\<close> returns \<open>false\<close>, which as an integer is 0 and not the error
  code; on the registry \<open>sU\<close> that is not initialised \<open>uGnssGetTimeout\<close> returns
  \<open>U_ERROR_COMMON_NOT_INITIALISED\<close>.
\<close>

theorem unknown_handle_getters_without_invalid_parameter:
  "pUGnssPrivateGetInstance 9 (gpUGnssPrivateInstanceList s0) = None
   \<and> fst (uGnssGetUbxMessagePrint 9 s0) = False
   \<and> int32_of_bool (fst (uGnssGetUbxMessagePrint 9 s0)) \<noteq> U_ERROR_COMMON_INVALID_PARAMETER cfg0
   \<and> pUGnssPrivateGetInstance 9 (gpUGnssPrivateInstanceList sU) = None
   \<and> fst (uGnssGetTimeout cfg0 9 sU) = U_ERROR_COMMON_NOT_INITIALISED cfg0
   \<and> fst (uGnssGetTimeout cfg0 9 sU) \<noteq> U_ERROR_COMMON_INVALID_PARAMETER cfg0"
  by (simp add: uGnssGetUbxMessagePrint_def uGnssGetTimeout_def int32_of_bool_def Let_def
      emit_def eval_defs sU_def)

subsection \<open>C7: the enable-power pin\<close>

text \<open>
  Claim C7, as amended. For every \<open>uGnssAdd\<close> that gets as far as the pin set-up
  (initialised registry, device instance, accepted parameters, memory and transport
  mutex obtained) with a connected pin, that is a pin argument which is not
  negative once the inversion flag is cleared:
  \<^item> the on-level is \<open>U_GNSS_PIN_ENABLE_POWER_ON_STATE\<close>, logically negated exactly when
    the flag \<open>U_GNSS_PIN_INVERTED\<close> is set in the pin argument;
  \<^item> the GPIO calls made are: unless \<open>leavePowerAlone\<close>, one \<open>uPortGpioSet\<close> of the pin
    (the argument with the flag cleared) to the negation of the on-level; then, when
    that call was not made or returned 0, one \<open>uPortGpioConfig\<close> of the pin as an
    output without pull, in the drive mode of the static override if there is one, and
    otherwise normal when the on-level is 1 and open drain when it is not. So with
    \<open>leavePowerAlone\<close> the pin is not driven but is still configured;
  \<^item> when a handle is handed out, the new head of the list stores that on-level and
    that pin.
\<close>

theorem uGnssAdd_enable_power_pin:
  assumes "gUGnssPrivateMutex s \<noteq> NULL" and "pUDeviceCreateInstance env \<noteq> NULL"
    and "checkParameters cfg moduleType tt th (gpUGnssPrivateInstanceList s)"
    and "malloc env \<noteq> NULL" and "fst (uPortMutexCreate env) = 0"
    and "0 \<le> and pinArg (not (U_GNSS_PIN_INVERTED cfg))"
    and "uGnssAdd cfg env moduleType tt th pinArg leavePowerAlone s = (rc, written, s')"
    and "onState = (if and pinArg (U_GNSS_PIN_INVERTED cfg) \<noteq> 0
                    then logicalNot (U_GNSS_PIN_ENABLE_POWER_ON_STATE cfg)
                    else U_GNSS_PIN_ENABLE_POWER_ON_STATE cfg)"
  shows "filter isGpio (effects s') =
           filter isGpio (effects s)
           @ (if leavePowerAlone then []
              else [GpioSet (and pinArg (not (U_GNSS_PIN_INVERTED cfg))) (logicalNot onState)])
           @ (if leavePowerAlone \<or> uPortGpioSet env = 0
              then [GpioConfig
                      \<lparr>pin = and pinArg (not (U_GNSS_PIN_INVERTED cfg)),
                       pullMode = U_PORT_GPIO_PULL_MODE_NONE,
                       driveMode =
                         (case U_GNSS_PIN_ENABLE_POWER_DRIVE_MODE cfg of
                            Some userOverride \<Rightarrow> userOverride
                          | None \<Rightarrow> if onState = 1 then U_PORT_GPIO_DRIVE_MODE_NORMAL
                                    else U_PORT_GPIO_DRIVE_MODE_OPEN_DRAIN),
                       direction = U_PORT_GPIO_DIRECTION_OUTPUT\<rparr>]
              else [])
       \<and> (written \<noteq> None \<longrightarrow>
            (\<exists>inst. gpUGnssPrivateInstanceList s' = inst # gpUGnssPrivateInstanceList s
               \<and> pinGnssEnablePowerOnState inst = onState
               \<and> pinGnssEnablePower inst = and pinArg (not (U_GNSS_PIN_INVERTED cfg))))"
proof -
  have o: "onState = enablePowerOnState cfg pinArg"
    by (simp add: assms(8) enablePowerOnState_def)
  have s': "s' = snd (snd (uGnssAdd cfg env moduleType tt th pinArg leavePowerAlone s))"
    by (simp add: assms(7))
  have calls: "filter isGpio (effects s')
                 = filter isGpio (effects s) @ snd (gpioCalls cfg env pinArg leavePowerAlone)"
    unfolding s' by (rule add_gpio_effects [OF assms(1-5)])
  have gpio: ?thesis if "written = None"
    using that calls gpioCalls_connected [OF assms(6), of env leavePowerAlone]
    by (simp add: o enablePowerDriveMode_def)
  have stored: ?thesis if w: "written \<noteq> None"
  proof -
    from w obtain h where h: "written = Some h" by auto
    from add_written [OF assms(7) [unfolded h]]
    have a: "acquisitionsSucceed cfg env pinArg leavePowerAlone" by simp
    let ?inst = "newInstance cfg env moduleType tt th pinArg"
    from assms(7) have l: "gpUGnssPrivateInstanceList s' = ?inst # gpUGnssPrivateInstanceList s"
      by (auto simp: add_success [OF assms(1,3) a])
    have "pinGnssEnablePowerOnState ?inst = onState
        \<and> pinGnssEnablePower ?inst = and pinArg (not (U_GNSS_PIN_INVERTED cfg))"
      by (simp add: newInstance_def fillInstance_def o enablePowerPin_def)
    with l calls gpioCalls_connected [OF assms(6), of env leavePowerAlone]
    show ?thesis by (simp add: o enablePowerDriveMode_def)
  qed
  from gpio stored show ?thesis by blast
qed

text \<open>
  The theorem at an add on the empty registry \<open>s0\<close> with the pin argument 133, which
  is pin 5 with the inversion flag 128.
\<close>

theorem uGnssAdd_enable_power_pin_witness:
  "gUGnssPrivateMutex s0 \<noteq> NULL \<and> pUDeviceCreateInstance env0 \<noteq> NULL
   \<and> checkParameters cfg0 0 U_GNSS_TRANSPORT_UBX_UART 7 (gpUGnssPrivateInstanceList s0)
   \<and> malloc env0 \<noteq> NULL \<and> fst (uPortMutexCreate env0) = 0
   \<and> (0::int) \<le> and 133 (not (U_GNSS_PIN_INVERTED cfg0))
   \<and> filter isGpio
        (effects (snd (snd (uGnssAdd cfg0 env0 0 U_GNSS_TRANSPORT_UBX_UART 7 133 False s0))))
      = [GpioSet 5 1,
         GpioConfig \<lparr>pin = 5, pullMode = U_PORT_GPIO_PULL_MODE_NONE,
                     driveMode = U_PORT_GPIO_DRIVE_MODE_OPEN_DRAIN,
                     direction = U_PORT_GPIO_DIRECTION_OUTPUT\<rparr>]
   \<and> (\<exists>inst. gpUGnssPrivateInstanceList
                (snd (snd (uGnssAdd cfg0 env0 0 U_GNSS_TRANSPORT_UBX_UART 7 133 False s0)))
              = inst # gpUGnssPrivateInstanceList s0
          \<and> pinGnssEnablePowerOnState inst = 0 \<and> pinGnssEnablePower inst = 5)"
proof -
  obtain rc written s' where
    r: "uGnssAdd cfg0 env0 0 U_GNSS_TRANSPORT_UBX_UART 7 133 False s0 = (rc, written, s')"
    by (cases "uGnssAdd cfg0 env0 0 U_GNSS_TRANSPORT_UBX_UART 7 133 False s0") auto
  have w: "written \<noteq> None"
    using r by (simp add: add_defs eval_defs) auto
  have a: "gUGnssPrivateMutex s0 \<noteq> NULL" by (simp add: s0_def)
  have b: "pUDeviceCreateInstance env0 \<noteq> NULL" by (simp add: env0_def)
  have c: "checkParameters cfg0 0 U_GNSS_TRANSPORT_UBX_UART 7 (gpUGnssPrivateInstanceList s0)"
    by (simp add: eval_defs)
  have d: "malloc env0 \<noteq> NULL" by (simp add: env0_def)
  have e: "fst (uPortMutexCreate env0) = 0" by (simp add: env0_def)
  have f: "(0::int) \<le> and 133 (not (U_GNSS_PIN_INVERTED cfg0))" by (simp add: cfg0_def)
  have s': "snd (snd (uGnssAdd cfg0 env0 0 U_GNSS_TRANSPORT_UBX_UART 7 133 False s0)) = s'"
    by (simp add: r)
  have t: "filter isGpio (effects s')
             = [GpioSet 5 1,
                GpioConfig \<lparr>pin = 5, pullMode = U_PORT_GPIO_PULL_MODE_NONE,
                            driveMode = U_PORT_GPIO_DRIVE_MODE_OPEN_DRAIN,
                            direction = U_PORT_GPIO_DIRECTION_OUTPUT\<rparr>]
           \<and> (\<exists>inst. gpUGnssPrivateInstanceList s' = inst # gpUGnssPrivateInstanceList s0
                  \<and> pinGnssEnablePowerOnState inst = 0 \<and> pinGnssEnablePower inst = 5)"
    using w uGnssAdd_enable_power_pin [OF a b c d e f r refl]
    by (simp add: cfg0_def env0_def s0_def logicalNot_def)
  show ?thesis
    unfolding s' using a b c d e f t by blast
qed

text \<open>
  The claim as stated (with \<open>leavePowerAlone\<close> the pin is neither driven nor configured)
  fails: with \<open>leavePowerAlone\<close> set and pin 5 connected, \<open>uGnssAdd\<close> makes no
  \<open>uPortGpioSet\<close> call and one \<open>uPortGpioConfig\<close> call on pin 5.
\<close>

theorem uGnssAdd_leavePowerAlone_still_configures:
  "(0::int) \<le> and 5 (not (U_GNSS_PIN_INVERTED cfg0))
   \<and> filter isGpio
        (effects (snd (snd (uGnssAdd cfg0 env0 0 U_GNSS_TRANSPORT_UBX_UART 7 5 True s0))))
      = [GpioConfig \<lparr>pin = 5, pullMode = U_PORT_GPIO_PULL_MODE_NONE,
                     driveMode = U_PORT_GPIO_DRIVE_MODE_NORMAL,
                     direction = U_PORT_GPIO_DIRECTION_OUTPUT\<rparr>]"
  by (simp add: add_defs eval_defs)

subsection \<open>C8: shutting the registry down\<close>

text \<open>
  Claim C8, as amended. \<open>uGnssDeinit\<close> returns nothing. On an initialised registry with
  the instances \<open>i\<^sub>1, ..., i\<^sub>N\<close> (\<open>N\<close> may be 0) it takes the registry mutex, tears every
  instance down in list order (position task stopped, transport mutex deleted, device
  instance destroyed, unlinked, freed), releases the registry mutex and deletes it; the
  list is then empty and the registry is not initialised. With \<open>N = 0\<close> there is no
  teardown, but the mutex is still deleted and the registry is still left
  uninitialised. In the state \<open>uGnssDeinit\<close> leaves, \<open>uGnssAdd\<close>, \<open>uGnssSetI2cAddress\<close>,
  \<open>uGnssGetI2cAddress\<close>, \<open>uGnssGetTimeout\<close> and \<open>uGnssGetTransportHandle\<close> return
  \<open>U_ERROR_COMMON_NOT_INITIALISED\<close> and change nothing, \<open>uGnssGetUbxMessagePrint\<close>
  returns \<open>false\<close>, and the \<open>void\<close> functions (the four setters, \<open>uGnssRemove\<close> and
  \<open>uGnssDeinit\<close> itself) do nothing.
\<close>

theorem uGnssDeinit_tears_down_every_instance:
  assumes "gUGnssPrivateMutex s \<noteq> NULL"
  shows "gpUGnssPrivateInstanceList (uGnssDeinit s) = []
       \<and> gUGnssPrivateMutex (uGnssDeinit s) = NULL
       \<and> effects (uGnssDeinit s) =
           effects s @ [MutexLock (gUGnssPrivateMutex s)]
           @ concat (map (\<lambda>pInstance.
                       [CleanUpPosTask (self pInstance), MutexDelete (transportMutex pInstance),
                        DeviceDestroyInstance (gnssHandle pInstance), Unlink (self pInstance),
                        Free (self pInstance)])
                     (gpUGnssPrivateInstanceList s))
           @ [MutexUnlock (gUGnssPrivateMutex s), MutexDelete (gUGnssPrivateMutex s)]
       \<and> uGnssAdd cfg env moduleType tt th pinArg leavePowerAlone (uGnssDeinit s)
           = (U_ERROR_COMMON_NOT_INITIALISED cfg, None, uGnssDeinit s)
       \<and> uGnssSetI2cAddress cfg h v (uGnssDeinit s)
           = (U_ERROR_COMMON_NOT_INITIALISED cfg, uGnssDeinit s)
       \<and> uGnssGetI2cAddress cfg h (uGnssDeinit s)
           = (U_ERROR_COMMON_NOT_INITIALISED cfg, uGnssDeinit s)
       \<and> uGnssGetTimeout cfg h (uGnssDeinit s)
           = (U_ERROR_COMMON_NOT_INITIALISED cfg, uGnssDeinit s)
       \<and> uGnssGetTransportHandle cfg h pTransportType pTransportHandle (uGnssDeinit s)
           = (U_ERROR_COMMON_NOT_INITIALISED cfg, None, None, uGnssDeinit s)
       \<and> uGnssGetUbxMessagePrint h (uGnssDeinit s) = (False, uGnssDeinit s)
       \<and> uGnssSetTimeout h v (uGnssDeinit s) = uGnssDeinit s
       \<and> uGnssSetAtPinPwr h v (uGnssDeinit s) = uGnssDeinit s
       \<and> uGnssSetAtPinDataReady h v (uGnssDeinit s) = uGnssDeinit s
       \<and> uGnssSetUbxMessagePrint h b (uGnssDeinit s) = uGnssDeinit s
       \<and> uGnssRemove h (uGnssDeinit s) = uGnssDeinit s
       \<and> uGnssDeinit (uGnssDeinit s) = uGnssDeinit s"
proof -
  have u: "gUGnssPrivateMutex (uGnssDeinit s) = NULL"
    by (simp add: deinit_eq [OF assms])
  have t: "teardown = (\<lambda>pInstance.
                       [CleanUpPosTask (self pInstance), MutexDelete (transportMutex pInstance),
                        DeviceDestroyInstance (gnssHandle pInstance), Unlink (self pInstance),
                        Free (self pInstance)])"
    by (simp add: teardown_def fun_eq_iff)
  have e: "effects (uGnssDeinit s) =
           effects s @ [MutexLock (gUGnssPrivateMutex s)]
           @ concat (map teardown (gpUGnssPrivateInstanceList s))
           @ [MutexUnlock (gUGnssPrivateMutex s), MutexDelete (gUGnssPrivateMutex s)]"
    by (simp add: deinit_eq [OF assms])
  have l: "gpUGnssPrivateInstanceList (uGnssDeinit s) = []"
    by (simp add: deinit_eq [OF assms])
  show ?thesis
    using l u e [unfolded t] uninitialised_operations [OF u] by (intro conjI) blast+
qed

text \<open>The theorem at \<open>s2\<close>, which holds two instances.\<close>

theorem uGnssDeinit_tears_down_every_instance_witness:
  "gUGnssPrivateMutex s2 \<noteq> NULL
   \<and> gpUGnssPrivateInstanceList (uGnssDeinit s2) = []
   \<and> gUGnssPrivateMutex (uGnssDeinit s2) = NULL
   \<and> effects (uGnssDeinit s2) =
        [MutexLock 1,
         CleanUpPosTask 201, MutexDelete 301, DeviceDestroyInstance 101, Unlink 201, Free 201,
         CleanUpPosTask 200, MutexDelete 300, DeviceDestroyInstance 100, Unlink 200, Free 200,
         MutexUnlock 1, MutexDelete 1]
   \<and> fst (uGnssAdd cfg0 env2 0 U_GNSS_TRANSPORT_UBX_UART 7 5 False (uGnssDeinit s2)) = - 2
   \<and> fst (uGnssGetTimeout cfg0 100 (uGnssDeinit s2)) = - 2
   \<and> uGnssSetTimeout 100 2000 (uGnssDeinit s2) = uGnssDeinit s2"
proof -
  have a: "gUGnssPrivateMutex s2 \<noteq> NULL" by (simp add: s2_def)
  have i: "U_ERROR_COMMON_NOT_INITIALISED cfg0 = - 2" by (simp add: cfg0_def)
  note T = uGnssDeinit_tears_down_every_instance
             [OF a, of cfg0 env2 0 U_GNSS_TRANSPORT_UBX_UART 7 5 False 100 2000 True True True]
  have e: "effects (uGnssDeinit s2) =
        [MutexLock 1,
         CleanUpPosTask 201, MutexDelete 301, DeviceDestroyInstance 101, Unlink 201, Free 201,
         CleanUpPosTask 200, MutexDelete 300, DeviceDestroyInstance 100, Unlink 200, Free 200,
         MutexUnlock 1, MutexDelete 1]"
    using T by (simp add: s2_def instance1_def instance2_def)
  from T have r: "uGnssAdd cfg0 env2 0 U_GNSS_TRANSPORT_UBX_UART 7 5 False (uGnssDeinit s2)
           = (U_ERROR_COMMON_NOT_INITIALISED cfg0, None, uGnssDeinit s2)
       \<and> uGnssGetTimeout cfg0 100 (uGnssDeinit s2)
           = (U_ERROR_COMMON_NOT_INITIALISED cfg0, uGnssDeinit s2)
       \<and> uGnssSetTimeout 100 2000 (uGnssDeinit s2) = uGnssDeinit s2"
    by blast
  from T have l: "gpUGnssPrivateInstanceList (uGnssDeinit s2) = []
       \<and> gUGnssPrivateMutex (uGnssDeinit s2) = NULL" by blast
  from r have r': "fst (uGnssAdd cfg0 env2 0 U_GNSS_TRANSPORT_UBX_UART 7 5 False (uGnssDeinit s2)) = - 2
   \<and> fst (uGnssGetTimeout cfg0 100 (uGnssDeinit s2)) = - 2
   \<and> uGnssSetTimeout 100 2000 (uGnssDeinit s2) = uGnssDeinit s2"
    by (simp add: i)
  from a l e r' show ?thesis by blast
qed

text \<open>
  The claim as stated fails in two places. \<open>uGnssDeinit\<close> of the initialised registry
  \<open>s0\<close>, which has no instance, is not a no-op: it deletes the registry mutex and
  leaves the registry uninitialised. And after \<open>uGnssDeinit\<close> not every getter fails
  with \<open>U_ERROR_COMMON_NOT_INITIALISED\<close>: \<open>uGnssGetUbxMessagePrint\<close> returns \<open>false\<close>,
  as an integer 0.
\<close>

theorem uGnssDeinit_of_empty_registry_is_not_a_no_op:
  "gUGnssPrivateMutex s0 \<noteq> NULL \<and> gpUGnssPrivateInstanceList s0 = []
   \<and> uGnssDeinit s0 \<noteq> s0
   \<and> gUGnssPrivateMutex (uGnssDeinit s0) = NULL
   \<and> effects (uGnssDeinit s0) = [MutexLock 1, MutexUnlock 1, MutexDelete 1]
   \<and> fst (uGnssGetUbxMessagePrint 100 (uGnssDeinit s2)) = False
   \<and> int32_of_bool (fst (uGnssGetUbxMessagePrint 100 (uGnssDeinit s2)))
        \<noteq> U_ERROR_COMMON_NOT_INITIALISED cfg0"
proof -
  have a: "gUGnssPrivateMutex s0 \<noteq> NULL" by (simp add: s0_def)
  have b: "gUGnssPrivateMutex s2 \<noteq> NULL" by (simp add: s2_def)
  have g: "fst (uGnssGetUbxMessagePrint 100 (uGnssDeinit s2)) = False"
    by (simp add: deinit_eq [OF b] uGnssGetUbxMessagePrint_def)
  have "uGnssDeinit s0 = \<lparr>gUGnssPrivateMutex = NULL, gpUGnssPrivateInstanceList = [],
                           effects = [MutexLock 1, MutexUnlock 1, MutexDelete 1]\<rparr>"
    by (simp add: deinit_eq [OF a]) (simp add: s0_def)
  then show ?thesis
    using g by (simp add: s0_def int32_of_bool_def cfg0_def)
qed

subsection \<open>C9: what send-receive returns\<close>

text \<open>
  Claim C9, on the model of the spec's message exchange. For a send-receive on an
  instance:
  \<^item> when the write succeeds and a frame of the class and id asked for arrives within
    the time-out of the instance, behind arrivals that are within the time-out and are
    passed over, the result is the length of the whole body of that frame, whatever
    the capacity of the caller's buffer, together with the body cut to that capacity;
  \<^item> when the write succeeds and every arrival within the time-out is passed over,
    the result is the time-out error;
  \<^item> when the write fails, or a read fails within the time-out before a matching
    frame, the result is the transport error.
\<close>

theorem uGnssPrivateSendReceiveUbxMessage_result:
  "(transmit tr (encode messageClass messageId message) = Some sent
      \<and> incoming tr = pre @ (t, Frame messageClass messageId body) # post
      \<and> inTimePassedOver (timeoutMs pInstance) messageClass messageId pre
      \<and> t \<le> timeoutMs pInstance \<longrightarrow>
        uGnssPrivateSendReceiveUbxMessage encode pInstance tr messageClass messageId message
          capacity
        = Inr (length body, take capacity body))
   \<and> (transmit tr (encode messageClass messageId message) = Some sent
      \<and> list_all (\<lambda>(t, a). t \<le> timeoutMs pInstance \<longrightarrow> passedOver messageClass messageId a)
           (incoming tr) \<longrightarrow>
        uGnssPrivateSendReceiveUbxMessage encode pInstance tr messageClass messageId message
          capacity
        = Inl Timeout)
   \<and> (transmit tr (encode messageClass messageId message) = None \<longrightarrow>
        uGnssPrivateSendReceiveUbxMessage encode pInstance tr messageClass messageId message
          capacity
        = Inl TransportFailure)
   \<and> (transmit tr (encode messageClass messageId message) = Some sent
      \<and> incoming tr = pre @ (t, ReadError) # post
      \<and> inTimePassedOver (timeoutMs pInstance) messageClass messageId pre
      \<and> t \<le> timeoutMs pInstance \<longrightarrow>
        uGnssPrivateSendReceiveUbxMessage encode pInstance tr messageClass messageId message
          capacity
        = Inl TransportFailure)"
  by (auto simp: uGnssPrivateSendReceiveUbxMessage_def uGnssPrivateSendOnlyStreamUbxMessage_def
      scan_skips scan_times_out)

text \<open>
  The theorem at the transport \<open>tr0\<close>: with the time-out 10000 of \<open>instance1\<close> and a
  buffer of 2 bytes the result is 4, the length of the body, with 2 bytes copied; with
  a time-out of 30 ms it is the time-out error; with a failing write or a failing read
  it is the transport error.
\<close>

theorem uGnssPrivateSendReceiveUbxMessage_result_witness:
  "uGnssPrivateSendReceiveUbxMessage encode0 instance1 tr0 10 4 [] 2 = Inr (4, [1, 2])
   \<and> uGnssPrivateSendReceiveUbxMessage encode0 (instance1\<lparr>timeoutMs := 30\<rparr>) tr0 10 4 [] 2
       = Inl Timeout
   \<and> uGnssPrivateSendReceiveUbxMessage encode0 instance1
        (tr0\<lparr>transmit := (\<lambda>bytes. None)\<rparr>) 10 4 [] 2
       = Inl TransportFailure
   \<and> uGnssPrivateSendReceiveUbxMessage encode0 instance1
        (tr0\<lparr>incoming := [(3, Noise), (10, ReadError), (40, Frame 10 4 [1, 2, 3, 4])]\<rparr>) 10 4 [] 2
       = Inl TransportFailure"
proof -
  have s: "transmit tr0 (encode0 10 4 []) = Some 2" by (simp add: tr0_def encode0_def)
  have a: "transmit tr0 (encode0 10 4 []) = Some 2
      \<and> incoming tr0 = [(3, Noise), (10, Frame 5 1 [6, 2])] @ (40, Frame 10 4 [1, 2, 3, 4]) # [(70, Frame 10 4 [9])]
      \<and> inTimePassedOver (timeoutMs instance1) 10 4 [(3, Noise), (10, Frame 5 1 [6, 2])]
      \<and> 40 \<le> timeoutMs instance1"
    by (simp add: tr0_def encode0_def inTimePassedOver_def instance1_def)
  have b: "transmit tr0 (encode0 10 4 []) = Some 2
      \<and> list_all (\<lambda>(t, a). t \<le> timeoutMs (instance1\<lparr>timeoutMs := 30\<rparr>) \<longrightarrow> passedOver 10 4 a)
           (incoming tr0)"
    by (simp add: tr0_def encode0_def)
  have c: "transmit (tr0\<lparr>transmit := (\<lambda>bytes. None)\<rparr>) (encode0 10 4 [])
             = None"
    by simp
  let ?tr = "tr0\<lparr>incoming := [(3, Noise), (10, ReadError), (40, Frame 10 4 [1, 2, 3, 4])]\<rparr>"
  have d: "transmit ?tr (encode0 10 4 []) = Some 2
      \<and> incoming ?tr = [(3, Noise)] @ (10, ReadError) # [(40, Frame 10 4 [1, 2, 3, 4])]
      \<and> inTimePassedOver (timeoutMs instance1) 10 4 [(3, Noise)]
      \<and> 10 \<le> timeoutMs instance1"
    by (simp add: tr0_def encode0_def inTimePassedOver_def instance1_def)
  have r1: "uGnssPrivateSendReceiveUbxMessage encode0 instance1 tr0 10 4 [] 2 = Inr (4, [1, 2])"
    using a uGnssPrivateSendReceiveUbxMessage_result
            [of tr0 encode0 10 4 "[]" 2 "[(3, Noise), (10, Frame 5 1 [6, 2])]" 40 "[1, 2, 3, 4]"
                "[(70, Frame 10 4 [9])]" instance1 2]
    by simp
  have r2: "uGnssPrivateSendReceiveUbxMessage encode0 (instance1\<lparr>timeoutMs := 30\<rparr>) tr0 10 4 [] 2
       = Inl Timeout"
    using b uGnssPrivateSendReceiveUbxMessage_result
            [of tr0 encode0 10 4 "[]" 2 _ _ _ _ "instance1\<lparr>timeoutMs := 30\<rparr>" 2]
    by blast
  have r3: "uGnssPrivateSendReceiveUbxMessage encode0 instance1
        (tr0\<lparr>transmit := (\<lambda>bytes. None)\<rparr>) 10 4 [] 2
       = Inl TransportFailure"
    using c uGnssPrivateSendReceiveUbxMessage_result
            [of "tr0\<lparr>transmit := (\<lambda>bytes. None)\<rparr>" encode0 10 4 "[]" _ _ _ _ _
                instance1 2]
    by blast
  have r4: "uGnssPrivateSendReceiveUbxMessage encode0 instance1 ?tr 10 4 [] 2
       = Inl TransportFailure"
    using d uGnssPrivateSendReceiveUbxMessage_result
            [of ?tr encode0 10 4 "[]" 2 "[(3, Noise)]" 10 _ "[(40, Frame 10 4 [1, 2, 3, 4])]"
                instance1 2]
    by blast
  from r1 r2 r3 r4 show ?thesis by blast
qed

subsection \<open>C10: the initial state of a new instance\<close>

text \<open>
  Claim C10. Whenever \<open>uGnssAdd\<close> hands out a handle, the instance with that handle is
  the new head of the list and holds: the I2C address \<open>U_GNSS_I2C_ADDRESS\<close> (as the
  16-bit field stores it, which is the constant itself when it fits 16 bits), the
  time-out \<open>U_GNSS_DEFAULT_TIMEOUT_MS\<close>, message printing off, both AT module pins - 1,
  no position task, no position mutex, no task flags, and the port number 1 for the two
  UART transport types and 0 for every other.
\<close>

theorem uGnssAdd_initial_fields:
  assumes "uGnssAdd cfg env moduleType tt th pinArg leavePowerAlone s = (rc, Some h, s')"
  shows "\<exists>inst. gpUGnssPrivateInstanceList s' = inst # gpUGnssPrivateInstanceList s
           \<and> gnssHandle inst = h
           \<and> i2cAddress inst = U_GNSS_I2C_ADDRESS cfg mod 2 ^ 16
           \<and> (0 \<le> U_GNSS_I2C_ADDRESS cfg \<and> U_GNSS_I2C_ADDRESS cfg < 2 ^ 16
                \<longrightarrow> i2cAddress inst = U_GNSS_I2C_ADDRESS cfg)
           \<and> timeoutMs inst = U_GNSS_DEFAULT_TIMEOUT_MS cfg
           \<and> \<not> printUbxMessages inst
           \<and> atModulePinPwr inst = - 1 \<and> atModulePinDataReady inst = - 1
           \<and> posTask inst = NULL \<and> posMutex inst = NULL \<and> posTaskFlags inst = 0
           \<and> portNumber inst =
               (if tt = U_GNSS_TRANSPORT_UBX_UART \<or> tt = U_GNSS_TRANSPORT_NMEA_UART
                then 1 else 0)"
proof -
  from add_written [OF assms]
  have i: "gUGnssPrivateMutex s \<noteq> NULL"
    and c: "checkParameters cfg moduleType tt th (gpUGnssPrivateInstanceList s)"
    and a: "acquisitionsSucceed cfg env pinArg leavePowerAlone"
    by simp_all
  let ?inst = "newInstance cfg env moduleType tt th pinArg"
  from assms have l: "gpUGnssPrivateInstanceList s' = ?inst # gpUGnssPrivateInstanceList s"
    and h: "h = pUDeviceCreateInstance env"
    by (auto simp: add_success [OF i c a])
  have "gnssHandle ?inst = h" by (simp add: h)
  moreover have "i2cAddress ?inst = U_GNSS_I2C_ADDRESS cfg mod 2 ^ 16"
    by (simp add: newInstance_def fillInstance_def)
  moreover have "timeoutMs ?inst = U_GNSS_DEFAULT_TIMEOUT_MS cfg \<and> \<not> printUbxMessages ?inst
      \<and> atModulePinPwr ?inst = - 1 \<and> atModulePinDataReady ?inst = - 1
      \<and> posTask ?inst = NULL \<and> posMutex ?inst = NULL \<and> posTaskFlags ?inst = 0"
    by (simp add: newInstance_def fillInstance_def)
  moreover have "portNumber ?inst =
      (if tt = U_GNSS_TRANSPORT_UBX_UART \<or> tt = U_GNSS_TRANSPORT_NMEA_UART then 1 else 0)"
    by (simp add: newInstance_def fillInstance_def)
  ultimately show ?thesis using l by (intro exI [of _ ?inst]) simp
qed

text \<open>The theorem at the add that takes \<open>s1\<close> to \<open>s2\<close> (an I2C instance, no pin).\<close>

theorem uGnssAdd_initial_fields_witness:
  "uGnssAdd cfg0 env1 1 U_GNSS_TRANSPORT_UBX_I2C 3 (- 1) False s1
     = (0, Some 101, s2\<lparr>effects := [DeviceCreateInstance 101, MutexLock 1, Malloc 201,
                                     MutexCreate 0 301, MutexUnlock 1]\<rparr>)
   \<and> (\<exists>inst. gpUGnssPrivateInstanceList s2 = inst # gpUGnssPrivateInstanceList s1
         \<and> gnssHandle inst = 101 \<and> i2cAddress inst = 66 \<and> timeoutMs inst = 10000
         \<and> \<not> printUbxMessages inst
         \<and> atModulePinPwr inst = - 1 \<and> atModulePinDataReady inst = - 1
         \<and> posTask inst = NULL \<and> posMutex inst = NULL \<and> posTaskFlags inst = 0
         \<and> portNumber inst = 0)"
proof -
  have r: "uGnssAdd cfg0 env1 1 U_GNSS_TRANSPORT_UBX_I2C 3 (- 1) False s1
     = (0, Some 101, s2\<lparr>effects := [DeviceCreateInstance 101, MutexLock 1, Malloc 201,
                                     MutexCreate 0 301, MutexUnlock 1]\<rparr>)"
    by (simp add: add_defs eval_defs)
  show ?thesis
    using r uGnssAdd_initial_fields [OF r] by (simp add: cfg0_def)
qed

end
